theory Spec2Isabelle
  imports Main "HOL-Library.Word" "HOL-Library.AList"
begin

section \<open>Password strength check (utils/validator.js)\<close>

text \<open>
  A JavaScript string is a sequence of UTF-16 code units; \<open>password.length\<close> counts
  code units and a character class of a regular expression without the \<open>u\<close> flag
  is matched against one code unit at a time.
\<close>

type_synonym code_unit = "16 word"
type_synonym js_string = "code_unit list"

definition js :: "string \<Rightarrow> js_string" where
  "js s = map (\<lambda>c. of_nat (of_char c)) s"

text \<open>
  \<open>/[...]/.test(s)\<close> for a pattern that is one character class: the search is
  unanchored, it scans \<open>s\<close> from the left and stops at the first code unit of the class.
\<close>

fun regex_test_class :: "(code_unit \<Rightarrow> bool) \<Rightarrow> js_string \<Rightarrow> bool" where
  "regex_test_class cls [] = False"
| "regex_test_class cls (c # cs) = (if cls c then True else regex_test_class cls cs)"

definition class_upper :: "code_unit \<Rightarrow> bool" where
  \<comment> \<open>\<open>[A-Z]\<close>\<close>
  "class_upper c = (0x41 \<le> c \<and> c \<le> 0x5A)"

definition class_lower :: "code_unit \<Rightarrow> bool" where
  \<comment> \<open>\<open>[a-z]\<close>\<close>
  "class_lower c = (0x61 \<le> c \<and> c \<le> 0x7A)"

definition class_digit :: "code_unit \<Rightarrow> bool" where
  \<comment> \<open>\<open>\d\<close>, which is \<open>[0-9]\<close>\<close>
  "class_digit c = (0x30 \<le> c \<and> c \<le> 0x39)"

definition special_chars :: "code_unit list" where
  \<comment> \<open>the members of the class of line 16; \<open>0x22\<close> is the double quote\<close>
  "special_chars = js ''!@#$%^&*(),.?'' @ [0x22] @ js '':{}|<>''"

definition class_special :: "code_unit \<Rightarrow> bool" where
  "class_special c = (c \<in> set special_chars)"

definition isStrongPassword :: "js_string \<Rightarrow> bool" where
  "isStrongPassword password =
     (if length password < 8 then False
      else
        let hasUpperCase = regex_test_class class_upper password;
            hasLowerCase = regex_test_class class_lower password;
            hasNumbers = regex_test_class class_digit password;
            hasSpecialChar = regex_test_class class_special password
        in hasUpperCase \<and> hasLowerCase \<and> hasNumbers \<and> hasSpecialChar)"

text \<open>
  The requirement in the words of the specification, to be compared with the code.
\<close>

definition strong_password_spec :: "js_string \<Rightarrow> bool" where
  "strong_password_spec password =
     (8 \<le> length password
      \<and> (\<exists>c \<in> set password. class_upper c)
      \<and> (\<exists>c \<in> set password. class_lower c)
      \<and> (\<exists>c \<in> set password. class_digit c)
      \<and> (\<exists>c \<in> set password. c \<in> set special_chars))"

text \<open>
  Modelled from the spec: the password rule of the User schema (models/User.js is not
  among the sources; its unit test expects "Password must be at least 6 characters" for
  a password of five characters). Mongoose's \<open>minlength\<close> compares \<open>value.length\<close>.
\<close>

definition user_password_minlength :: nat where
  "user_password_minlength = 6"

definition user_password_ok :: "js_string \<Rightarrow> bool" where
  "user_password_ok password = (user_password_minlength \<le> length password)"

section \<open>Posts (routes/posts.js)\<close>

text \<open>
  Identifiers are compared by their string form (\<open>x.toString() === y.toString()\<close>),
  so an identifier is modelled by that string. Text supplied by a client is a
  \<open>js_string\<close>; the fixed messages of the server are written as \<open>string\<close> literals.
  The document store is a finite map from post identifiers to posts: \<open>findById\<close> is
  the lookup, \<open>save\<close> and \<open>findByIdAndUpdate\<close> overwrite one entry and
  \<open>findByIdAndDelete\<close> removes one. In the like handler the calls of the store are
  taken to succeed; in the update and the delete handler a call can reject, which leads
  to the \<open>catch\<close> branch of the handler (500 "Server error"). The handlers are the
  functions that run after the auth gate of the route has attached the authenticated
  user.
\<close>

type_synonym user_id = string
type_synonym post_id = string
type_synonym timestamp = nat

record like =
  user :: user_id
  createdAt :: timestamp

datatype comment =
  Comment (comment_user: user_id) (comment_content: js_string) (comment_createdAt: timestamp)

record post =
  title :: js_string
  content :: js_string
  author :: user_id
  tags :: "js_string list"
  isPublished :: bool
  likes :: "like list"
  comments :: "comment list"

type_synonym store = "post_id \<rightharpoonup> post"

text \<open>
  Modelled from the spec: the \<open>likeCount\<close> virtual of the Post schema (models/Post.js is
  not among the sources): "like count, comment count (computed from list lengths, not
  stored separately)".
\<close>

definition likeCount :: "post \<Rightarrow> nat" where
  "likeCount p = length (likes p)"

datatype reply_data =
  NoData
  | ErrorsData "string list"
  | PostData "post option"
  | LikeData (liked: bool) (reply_likeCount: nat)

text \<open>\<open>res.status(code).json({status, message, data})\<close>; \<open>res.json\<close> alone answers 200.\<close>

datatype reply =
  Reply (http_code: nat) (reply_status: string) (reply_message: "string option")
    (reply_data: reply_data)

subsection \<open>The like toggle, \<open>POST /:id/like\<close>\<close>

text \<open>
  \<open>Array.prototype.find\<close> is \<^const>\<open>List.find\<close>: the first element that satisfies the
  test, or nothing. A pushed like carries the user only; its \<open>createdAt\<close> is the
  default of the schema, the time of the push (the unit test of the Post model expects
  this default on every like).
\<close>

definition like_handler :: "store \<Rightarrow> post_id \<Rightarrow> user_id \<Rightarrow> timestamp \<Rightarrow> store \<times> reply" where
  "like_handler db pid uid now =
     (case db pid of
        None \<Rightarrow> (db, Reply 404 ''error'' (Some ''Post not found'') NoData)
      | Some p \<Rightarrow>
          (case List.find (\<lambda>l. user l = uid) (likes p) of
             Some existingLike \<Rightarrow>
               (let p' = p\<lparr>likes := filter (\<lambda>l. user l \<noteq> uid) (likes p)\<rparr>
                in (db(pid \<mapsto> p'),
                    Reply 200 ''success'' (Some ''Post unliked'') (LikeData False (likeCount p'))))
           | None \<Rightarrow>
               (let p' = p\<lparr>likes := likes p @ [\<lparr>user = uid, createdAt = now\<rparr>]\<rparr>
                in (db(pid \<mapsto> p'),
                    Reply 200 ''success'' (Some ''Post liked'') (LikeData True (likeCount p'))))))"

text \<open>A sequence of like requests, each with its post, its user and its time.\<close>

fun like_requests :: "store \<Rightarrow> (post_id \<times> user_id \<times> timestamp) list \<Rightarrow> store" where
  "like_requests db [] = db"
| "like_requests db ((pid, uid, now) # rs) = like_requests (fst (like_handler db pid uid now)) rs"

subsection \<open>Update and delete, \<open>PUT /:id\<close> and \<open>DELETE /:id\<close>\<close>

text \<open>
  The request body of an update. A field that the client did not send is \<open>None\<close>
  (\<open>undefined\<close>).
\<close>

record put_body =
  body_title :: "js_string option"
  body_content :: "js_string option"
  body_tags :: "js_string list option"

definition js_space :: "code_unit \<Rightarrow> bool" where
  \<comment> \<open>the white space and line terminators that \<open>trim\<close> removes\<close>
  "js_space c =
     ((0x09 \<le> c \<and> c \<le> 0x0D) \<or> c = 0x20 \<or> c = 0xA0 \<or> c = 0x1680
      \<or> (0x2000 \<le> c \<and> c \<le> 0x200A) \<or> c = 0x2028 \<or> c = 0x2029 \<or> c = 0x202F
      \<or> c = 0x205F \<or> c = 0x3000 \<or> c = 0xFEFF)"

definition js_trim :: "js_string \<Rightarrow> js_string" where
  "js_trim s = rev (dropWhile js_space (rev (dropWhile js_space s)))"

text \<open>
  The validation chain of the route: \<open>body(f).optional().trim().notEmpty()\<close> leaves an
  absent field alone; a field that is present is replaced by its trimmed value and
  reported when that value is empty. The result is the list of error messages
  (\<open>validationResult(req)\<close>) and the sanitised body.
\<close>

definition put_validation :: "put_body \<Rightarrow> string list \<times> put_body" where
  "put_validation b =
     (let t = map_option js_trim (body_title b);
          c = map_option js_trim (body_content b)
      in ((if t = Some [] then [''Title cannot be empty''] else [])
          @ (if c = Some [] then [''Content cannot be empty''] else []),
          b\<lparr>body_title := t, body_content := c\<rparr>))"

text \<open>
  \<open>updateData\<close>: a field is copied when it is truthy. A string is truthy when it is
  not empty; an array is always truthy.
\<close>

record update_data =
  upd_title :: "js_string option"
  upd_content :: "js_string option"
  upd_tags :: "js_string list option"

definition make_updateData :: "put_body \<Rightarrow> update_data" where
  "make_updateData b =
     \<lparr>upd_title = (case body_title b of Some t \<Rightarrow> (if t \<noteq> [] then Some t else None) | None \<Rightarrow> None),
      upd_content = (case body_content b of Some c \<Rightarrow> (if c \<noteq> [] then Some c else None) | None \<Rightarrow> None),
      upd_tags = body_tags b\<rparr>"

definition apply_update :: "update_data \<Rightarrow> post \<Rightarrow> post" where
  "apply_update u p =
     p\<lparr>title := (case upd_title u of Some t \<Rightarrow> t | None \<Rightarrow> title p),
       content := (case upd_content u of Some c \<Rightarrow> c | None \<Rightarrow> content p),
       tags := (case upd_tags u of Some ts \<Rightarrow> ts | None \<Rightarrow> tags p)\<rparr>"

datatype db_error = DbRejection

text \<open>
  A call of the Post model is a promise, and a promise can reject: \<open>Post.findById\<close>
  rejects with a \<open>CastError\<close> when the identifier cannot be cast to an \<open>ObjectId\<close>,
  \<open>Post.findByIdAndUpdate\<close> with \<open>runValidators: true\<close> rejects when a validator of the
  schema refuses the update, and every call rejects when the store cannot be reached. In
  the update and the delete handler the \<open>await\<close> of a rejected call throws inside the
  \<open>try\<close>, and the \<open>catch\<close> answers 500 "Server error". Mongoose and the Post schema
  are not among the sources, so which calls reject is a parameter of the two handlers. A
  call that rejects stores nothing.
\<close>

record post_model =
  findById_rejects :: "post_id \<Rightarrow> bool"
  findByIdAndUpdate_rejects :: "post_id \<Rightarrow> update_data \<Rightarrow> bool"
  findByIdAndDelete_rejects :: "post_id \<Rightarrow> bool"

definition Post_findById :: "post_model \<Rightarrow> store \<Rightarrow> post_id \<Rightarrow> db_error + post option" where
  "Post_findById m db pid = (if findById_rejects m pid then Inl DbRejection else Inr (db pid))"

text \<open>
  \<open>Post.findByIdAndUpdate(id, updateData, {new: true, runValidators: true})\<close>: the fields
  of \<open>updateData\<close> are set and the new document is returned (\<open>null\<close> when no document
  has the identifier).
\<close>

definition Post_findByIdAndUpdate ::
  "post_model \<Rightarrow> store \<Rightarrow> post_id \<Rightarrow> update_data \<Rightarrow> db_error + (store \<times> post option)" where
  "Post_findByIdAndUpdate m db pid u =
     (if findByIdAndUpdate_rejects m pid u then Inl DbRejection
      else case db pid of
             None \<Rightarrow> Inr (db, None)
           | Some p \<Rightarrow> Inr (db(pid \<mapsto> apply_update u p), Some (apply_update u p)))"

definition Post_findByIdAndDelete :: "post_model \<Rightarrow> store \<Rightarrow> post_id \<Rightarrow> db_error + store" where
  "Post_findByIdAndDelete m db pid =
     (if findByIdAndDelete_rejects m pid then Inl DbRejection else Inr (db(pid := None)))"

text \<open>
  Lines 134 to 186. Every \<open>Inl\<close> branch is the \<open>catch\<close> of the handler.
\<close>

definition put_handler ::
  "post_model \<Rightarrow> store \<Rightarrow> post_id \<Rightarrow> user_id \<Rightarrow> put_body \<Rightarrow> store \<times> reply" where
  "put_handler m db pid uid raw_body =
     (let (errors, body) = put_validation raw_body in
      if errors \<noteq> [] then (db, Reply 400 ''error'' (Some ''Validation failed'') (ErrorsData errors))
      else
        case Post_findById m db pid of
          Inl e \<Rightarrow> (db, Reply 500 ''error'' (Some ''Server error'') NoData)
        | Inr None \<Rightarrow> (db, Reply 404 ''error'' (Some ''Post not found'') NoData)
        | Inr (Some p) \<Rightarrow>
            if author p \<noteq> uid
            then (db, Reply 403 ''error'' (Some ''Not authorized to update this post'') NoData)
            else
              (case Post_findByIdAndUpdate m db pid (make_updateData body) of
                 Inl e \<Rightarrow> (db, Reply 500 ''error'' (Some ''Server error'') NoData)
               | Inr (db', updatedPost) \<Rightarrow>
                   (db', Reply 200 ''success'' (Some ''Post updated successfully'')
                           (PostData updatedPost))))"

text \<open>Lines 191 to 222.\<close>

definition delete_handler :: "post_model \<Rightarrow> store \<Rightarrow> post_id \<Rightarrow> user_id \<Rightarrow> store \<times> reply" where
  "delete_handler m db pid uid =
     (case Post_findById m db pid of
        Inl e \<Rightarrow> (db, Reply 500 ''error'' (Some ''Server error'') NoData)
      | Inr None \<Rightarrow> (db, Reply 404 ''error'' (Some ''Post not found'') NoData)
      | Inr (Some p) \<Rightarrow>
          if author p \<noteq> uid
          then (db, Reply 403 ''error'' (Some ''Not authorized to delete this post'') NoData)
          else
            (case Post_findByIdAndDelete m db pid of
               Inl e \<Rightarrow> (db, Reply 500 ''error'' (Some ''Server error'') NoData)
             | Inr db' \<Rightarrow>
                 (db', Reply 200 ''success'' (Some ''Post deleted successfully'') NoData)))"

text \<open>A post with two likes, used in the examples below.\<close>

definition p0 :: post where
  "p0 = \<lparr>title = js ''Hello'', content = js ''First post'', author = ''carol'', tags = [],
         isPublished = True,
         likes = [\<lparr>user = ''alice'', createdAt = 1\<rparr>, \<lparr>user = ''bob'', createdAt = 2\<rparr>],
         comments = []\<rparr>"


text \<open>
  Two behaviours of the Post model and four request bodies. With \<open>never_rejects\<close> no
  call rejects. With \<open>strict_ids\<close> the lookup rejects every identifier that
  \<open>validator.isValidObjectId\<close> (utils/validator.js, \<open>/^[0-9a-fA-F]{24}$/\<close>) refuses, and
  the update rejects a title of more than 100 code units.
\<close>

definition hex_digit :: "char \<Rightarrow> bool" where
  "hex_digit c = (c \<in> set ''0123456789abcdefABCDEF'')"

definition isValidObjectId :: "string \<Rightarrow> bool" where
  "isValidObjectId i = (length i = 24 \<and> list_all hex_digit i)"

definition never_rejects :: post_model where
  "never_rejects =
     \<lparr>findById_rejects = (\<lambda>i. False), findByIdAndUpdate_rejects = (\<lambda>i u. False),
      findByIdAndDelete_rejects = (\<lambda>i. False)\<rparr>"

definition strict_ids :: post_model where
  "strict_ids =
     \<lparr>findById_rejects = (\<lambda>i. \<not> isValidObjectId i),
      findByIdAndUpdate_rejects =
        (\<lambda>i u. case upd_title u of Some t \<Rightarrow> 100 < length t | None \<Rightarrow> False),
      findByIdAndDelete_rejects = (\<lambda>i. False)\<rparr>"

definition blank_title :: put_body where
  "blank_title = \<lparr>body_title = Some (js ''   ''), body_content = None, body_tags = None\<rparr>"

definition blank_content :: put_body where
  "blank_content = \<lparr>body_title = None, body_content = Some (js ''   ''), body_tags = None\<rparr>"

definition new_title :: put_body where
  "new_title = \<lparr>body_title = Some (js '' Hi ''), body_content = None, body_tags = None\<rparr>"

definition long_title :: put_body where
  "long_title = \<lparr>body_title = Some (replicate 101 0x61), body_content = None, body_tags = None\<rparr>"

section \<open>Logging (utils/logger.js)\<close>

text \<open>
  Values that are logged or sent, where their shape does not matter to the handlers.
\<close>

datatype json =
  JUndefined
  | JNull
  | JBool bool
  | JNumber int
  | JString string
  | JArray "json list"
  | JObject "(string \<times> json) list"

definition opt_string :: "string option \<Rightarrow> json" where
  "opt_string s = (case s of None \<Rightarrow> JUndefined | Some x \<Rightarrow> JString x)"

definition opt_number :: "int option \<Rightarrow> json" where
  "opt_number n = (case n of None \<Rightarrow> JUndefined | Some x \<Rightarrow> JNumber x)"

text \<open>
  What the handlers read from the process: \<open>process.env.NODE_ENV\<close>, the clock
  (\<open>new Date().toISOString()\<close>, taken to stand still during one call) and
  \<open>process.memoryUsage()\<close> as the logger formats it.
\<close>

record environment =
  NODE_ENV :: "string option"
  time_now :: string
  memoryUsage :: "(string \<times> json) list"

text \<open>
  The two files under \<open>logs/\<close>. Each holds the log entries appended to it, oldest first,
  as the objects that \<open>JSON.stringify\<close> is applied to (it leaves out a key whose value is
  \<open>undefined\<close>). An entry counts as written when \<open>fs.appendFile\<close> is called with it. The
  coloured copy on the console is not modelled.
\<close>

record log_files =
  combined_log :: "json list"
  error_log :: "json list"

definition LOG_ERROR :: nat where "LOG_ERROR = 0"
definition LOG_WARN :: nat where "LOG_WARN = 1"
definition LOG_INFO :: nat where "LOG_INFO = 2"
definition LOG_DEBUG :: nat where "LOG_DEBUG = 3"

text \<open>
  \<open>currentLevel\<close> is computed once, when the module is loaded; the environment is taken
  to be the same then and during the calls.
\<close>

definition currentLevel :: "environment \<Rightarrow> nat" where
  "currentLevel env = (if NODE_ENV env = Some ''production'' then LOG_INFO else LOG_DEBUG)"

text \<open>Object spread \<open>{...a, ...b}\<close>: a key of \<open>b\<close> replaces the same key of \<open>a\<close> or is added.\<close>

definition spread :: "(string \<times> json) list \<Rightarrow> (string \<times> json) list \<Rightarrow> (string \<times> json) list" where
  "spread a b = fold (\<lambda>(k, v). AList.update k v) b a"

definition writeToFile :: "json \<Rightarrow> string \<Rightarrow> log_files \<Rightarrow> log_files" where
  "writeToFile logEntry levelName files =
     (let files1 = files\<lparr>combined_log := combined_log files @ [logEntry]\<rparr>
      in if levelName = ''ERROR''
         then files1\<lparr>error_log := error_log files1 @ [logEntry]\<rparr>
         else files1)"

definition log_at ::
  "environment \<Rightarrow> nat \<Rightarrow> string \<Rightarrow> string \<Rightarrow> (string \<times> json) list \<Rightarrow> log_files \<Rightarrow> log_files" where
  "log_at env level levelName msg meta files =
     (if level > currentLevel env then files
      else
        let logEntry =
              JObject (spread [(''timestamp'', JString (time_now env)), (''level'', JString levelName),
                               (''message'', JString msg)] meta)
        in writeToFile logEntry levelName files)"

definition logger_error :: "environment \<Rightarrow> string \<Rightarrow> (string \<times> json) list \<Rightarrow> log_files \<Rightarrow> log_files" where
  "logger_error env msg meta = log_at env LOG_ERROR ''ERROR'' msg meta"

definition logger_warn :: "environment \<Rightarrow> string \<Rightarrow> (string \<times> json) list \<Rightarrow> log_files \<Rightarrow> log_files" where
  "logger_warn env msg meta = log_at env LOG_WARN ''WARN'' msg meta"

definition logger_info :: "environment \<Rightarrow> string \<Rightarrow> (string \<times> json) list \<Rightarrow> log_files \<Rightarrow> log_files" where
  "logger_info env msg meta = log_at env LOG_INFO ''INFO'' msg meta"

definition logger_debug :: "environment \<Rightarrow> string \<Rightarrow> (string \<times> json) list \<Rightarrow> log_files \<Rightarrow> log_files" where
  "logger_debug env msg meta = log_at env LOG_DEBUG ''DEBUG'' msg meta"

definition logMemoryUsage :: "environment \<Rightarrow> log_files \<Rightarrow> log_files" where
  "logMemoryUsage env = logger_info env ''Memory Usage:'' (memoryUsage env)"

section \<open>The error handler (middleware/errorHandler.js)\<close>

text \<open>
  An error object, by the properties that the handler reads. A field is what the read
  \<open>err.x\<close> gives, whether the property is the object's own or comes from its prototype;
  a property that the object does not have reads as \<open>undefined\<close>: \<open>None\<close>, or
  \<open>JUndefined\<close> for the properties that are only logged. \<open>own_keys\<close> is
  \<open>Object.keys(err)\<close>, the names of the own enumerable properties, which are the ones
  that an object spread copies: an instance of \<open>Error\<close> has its \<open>name\<close> from the
  prototype and its \<open>message\<close> and \<open>stack\<close> as properties that are not enumerable, and
  a class of errors may define \<open>statusCode\<close> on its prototype. \<open>errors\<close> is the object of
  a validation error, from field names to field errors; a field error is given by its
  \<open>message\<close>.
\<close>

record js_error =
  name :: "string option"
  message :: "string option"
  stack :: "string option"
  code :: "int option"
  status :: "int option"
  statusCode :: "int option"
  errors :: "(string \<times> string option) list option"
  err_value :: json
  err_path :: json
  keyValue :: json
  expiredAt :: json
  own_keys :: "string list"

definition empty_object :: js_error where
  "empty_object =
     \<lparr>name = None, message = None, stack = None, code = None, status = None,
      statusCode = None, errors = None, err_value = JUndefined, err_path = JUndefined,
      keyValue = JUndefined, expiredAt = JUndefined, own_keys = []\<rparr>"

record request =
  req_method :: string
  req_url :: string
  req_ip :: string
  req_body :: json
  req_params :: json
  req_query :: json
  req_headers :: "string \<rightharpoonup> string"

text \<open>
  Objects live in a store: \<open>objects\<close> gives the object at an address and the addresses
  below \<open>lim\<close> are the ones in use. An object literal allocates the next address.
  \<open>next_calls\<close> counts the calls of the \<open>next\<close> callback that Express passes to the
  handler, which would hand the request on.
\<close>

type_synonym addr = nat

record world =
  objects :: "addr \<Rightarrow> js_error"
  lim :: addr
  logs :: log_files
  next_calls :: nat

definition alloc :: "js_error \<Rightarrow> world \<Rightarrow> addr \<times> world" where
  "alloc obj w = (lim w, w\<lparr>objects := (objects w)(lim w := obj), lim := Suc (lim w)\<rparr>)"

definition logging :: "(log_files \<Rightarrow> log_files) \<Rightarrow> world \<Rightarrow> world" where
  "logging f w = w\<lparr>logs := f (logs w)\<rparr>"

text \<open>\<open>error = { message, statusCode }\<close>: the variable is bound to a new object.\<close>

definition new_error :: "string \<Rightarrow> int \<Rightarrow> world \<Rightarrow> addr \<times> world" where
  "new_error msg c w =
     alloc (empty_object\<lparr>message := Some msg, statusCode := Some c,
                         own_keys := [''message'', ''statusCode'']\<rparr>) w"

text \<open>
  The object spread \<open>{ ...err }\<close>: a new object with the own enumerable properties of
  \<open>err\<close> and no others. Reading any other property of the new object gives \<open>undefined\<close>.
\<close>

definition spread_error :: "js_error \<Rightarrow> js_error" where
  "spread_error e =
     \<lparr>name = (if ''name'' \<in> set (own_keys e) then name e else None),
      message = (if ''message'' \<in> set (own_keys e) then message e else None),
      stack = (if ''stack'' \<in> set (own_keys e) then stack e else None),
      code = (if ''code'' \<in> set (own_keys e) then code e else None),
      status = (if ''status'' \<in> set (own_keys e) then status e else None),
      statusCode = (if ''statusCode'' \<in> set (own_keys e) then statusCode e else None),
      errors = (if ''errors'' \<in> set (own_keys e) then errors e else None),
      err_value = (if ''value'' \<in> set (own_keys e) then err_value e else JUndefined),
      err_path = (if ''path'' \<in> set (own_keys e) then err_path e else JUndefined),
      keyValue = (if ''keyValue'' \<in> set (own_keys e) then keyValue e else JUndefined),
      expiredAt = (if ''expiredAt'' \<in> set (own_keys e) then expiredAt e else JUndefined),
      own_keys = own_keys e\<rparr>"

text \<open>
  The assignment \<open>error.message = v\<close>: the property is set, and it is added to the own
  enumerable properties of the object when it was not among them.
\<close>

definition assign_message :: "string option \<Rightarrow> js_error \<Rightarrow> js_error" where
  "assign_message v obj =
     obj\<lparr>message := v,
         own_keys := (if ''message'' \<in> set (own_keys obj) then own_keys obj
                      else own_keys obj @ [''message''])\<rparr>"

text \<open>Lines 5 and 6: \<open>let error = { ...err }; error.message = err.message\<close>.\<close>

definition copy_error :: "addr \<Rightarrow> world \<Rightarrow> addr \<times> world" where
  "copy_error err w =
     (let (error, w1) = alloc (spread_error (objects w err)) w
      in (error, w1\<lparr>objects := (objects w1)(error := assign_message (message (objects w1 err))
                                                     (objects w1 error))\<rparr>))"

text \<open>
  Lines 9 to 29. The text of the first message starts with a pictograph in the source,
  which is left out here.
\<close>

definition log_occurrence :: "environment \<Rightarrow> addr \<Rightarrow> request \<Rightarrow> world \<Rightarrow> world" where
  "log_occurrence env err req w =
     (let w1 = logging (logger_error env ''Error Occurred:''
                 [(''error'', opt_string (message (objects w err))),
                  (''stack'', opt_string (stack (objects w err))),
                  (''request'', JObject
                     [(''method'', JString (req_method req)),
                      (''url'', JString (req_url req)),
                      (''ip'', JString (req_ip req)),
                      (''userAgent'', opt_string (req_headers req ''user-agent'')),
                      (''body'', req_body req),
                      (''params'', req_params req),
                      (''query'', req_query req),
                      (''headers'', JObject
                         [(''authorization'',
                             (case req_headers req ''authorization'' of
                                None \<Rightarrow> JUndefined
                              | Some h \<Rightarrow> if h \<noteq> [] then JString ''***REDACTED***'' else JUndefined)),
                          (''content-type'', opt_string (req_headers req ''content-type''))])]),
                  (''timestamp'', JString (time_now env))]) w
      in logging (logMemoryUsage env) w1)"

text \<open>
  Lines 32 to 80: seven tests on \<open>err\<close>, one after the other and none of them in an
  \<open>else\<close> branch; each one that holds binds \<open>error\<close> anew. A step takes and returns
  the address bound to \<open>error\<close> and the world.
\<close>

definition cast_step :: "environment \<Rightarrow> addr \<Rightarrow> addr \<times> world \<Rightarrow> addr \<times> world" where
  "cast_step env err s =
     (let (error, w) = s in
      if name (objects w err) = Some ''CastError''
      then let (error1, w1) = new_error ''Resource not found'' 404 w
           in (error1, logging (logger_warn env ''Cast Error:''
                  [(''value'', err_value (objects w1 err)), (''path'', err_path (objects w1 err))]) w1)
      else (error, w))"

definition duplicate_step :: "environment \<Rightarrow> addr \<Rightarrow> addr \<times> world \<Rightarrow> addr \<times> world" where
  "duplicate_step env err s =
     (let (error, w) = s in
      if code (objects w err) = Some 11000
      then let (error1, w1) = new_error ''Duplicate field value entered'' 400 w
           in (error1, logging (logger_warn env ''Duplicate Key Error:''
                  [(''keyValue'', keyValue (objects w1 err))]) w1)
      else (error, w))"

datatype js_exception = TypeError

text \<open>
  \<open>Array.prototype.join\<close>: the elements separated by the separator; an element that is
  \<open>undefined\<close> gives the empty text.
\<close>

fun join :: "string \<Rightarrow> string option list \<Rightarrow> string" where
  "join sep [] = []"
| "join sep [x] = (case x of None \<Rightarrow> [] | Some s \<Rightarrow> s)"
| "join sep (x # y # ys) = (case x of None \<Rightarrow> [] | Some s \<Rightarrow> s) @ sep @ join sep (y # ys)"

text \<open>
  Lines 46 to 53. \<open>Object.values(err.errors)\<close> throws a \<open>TypeError\<close> when \<open>err.errors\<close>
  is \<open>undefined\<close>, and the handler has no \<open>try\<close>.
\<close>

definition validation_step ::
  "environment \<Rightarrow> addr \<Rightarrow> addr \<times> world \<Rightarrow> js_exception + (addr \<times> world)" where
  "validation_step env err s =
     (let (error, w) = s in
      if name (objects w err) = Some ''ValidationError''
      then (case errors (objects w err) of
              None \<Rightarrow> Inl TypeError
            | Some errs \<Rightarrow>
                let msg = join '', '' (map snd errs);
                    (error1, w1) = new_error msg 400 w
                in Inr (error1, logging (logger_warn env ''Validation Error:''
                     [(''fields'', JArray (map (\<lambda>e. JString (fst e)) errs)),
                      (''messages'', JArray (map (\<lambda>e. opt_string (snd e)) errs))]) w1))
      else Inr (error, w))"

definition jwt_step :: "environment \<Rightarrow> addr \<Rightarrow> addr \<times> world \<Rightarrow> addr \<times> world" where
  "jwt_step env err s =
     (let (error, w) = s in
      if name (objects w err) = Some ''JsonWebTokenError''
      then let (error1, w1) = new_error ''Invalid token'' 401 w
           in (error1, logging (logger_warn env ''JWT Error:'' [(''type'', JString ''invalid_token'')]) w1)
      else (error, w))"

definition expired_step :: "environment \<Rightarrow> addr \<Rightarrow> addr \<times> world \<Rightarrow> addr \<times> world" where
  "expired_step env err s =
     (let (error, w) = s in
      if name (objects w err) = Some ''TokenExpiredError''
      then let (error1, w1) = new_error ''Token expired'' 401 w
           in (error1, logging (logger_warn env ''JWT Error:''
                  [(''type'', JString ''expired_token''), (''expiredAt'', expiredAt (objects w1 err))]) w1)
      else (error, w))"

definition rate_limit_step :: "environment \<Rightarrow> addr \<Rightarrow> request \<Rightarrow> addr \<times> world \<Rightarrow> addr \<times> world" where
  "rate_limit_step env err req s =
     (let (error, w) = s in
      if status (objects w err) = Some 429
      then let (error1, w1) = new_error ''Too many requests, please try again later'' 429 w
           in (error1, logging (logger_warn env ''Rate Limit Exceeded:'' [(''ip'', JString (req_ip req))]) w1)
      else (error, w))"

definition connection_step :: "environment \<Rightarrow> addr \<Rightarrow> addr \<times> world \<Rightarrow> addr \<times> world" where
  "connection_step env err s =
     (let (error, w) = s in
      if name (objects w err) = Some ''MongoNetworkError''
         \<or> name (objects w err) = Some ''MongooseServerSelectionError''
      then let (error1, w1) = new_error ''Database connection error'' 503 w
           in (error1, logging (logger_error env ''Database Connection Error:''
                  [(''error'', opt_string (message (objects w1 err)))]) w1)
      else (error, w))"

text \<open>
  The body that \<open>res.json\<close> sends. \<open>stack\<close> and \<open>originalError\<close> are \<open>None\<close> when the
  body has no such key or its value is \<open>undefined\<close>; \<open>originalError\<close> is \<open>err\<close> as it is
  when the body is serialised.
\<close>

record error_body =
  body_status :: string
  body_message :: string
  body_stack :: "string option"
  body_originalError :: "js_error option"
  body_timestamp :: string
  body_requestId :: string

text \<open>
  Lines 83 to 101. \<open>x || d\<close> is \<open>d\<close> when \<open>x\<close> is \<open>undefined\<close>, the empty string or
  zero. The result is the argument of \<open>res.status\<close> and the body.
\<close>

definition respond ::
  "environment \<Rightarrow> addr \<Rightarrow> request \<Rightarrow> addr \<times> world \<Rightarrow> world \<times> (int \<times> error_body)" where
  "respond env err req s =
     (let (error, w) = s;
          development = (NODE_ENV env = Some ''development'');
          response =
            \<lparr>body_status = ''error'',
             body_message = (case message (objects w error) of
                               Some m \<Rightarrow> if m \<noteq> [] then m else ''Server Error''
                             | None \<Rightarrow> ''Server Error''),
             body_stack = (if development then stack (objects w err) else None),
             body_originalError = (if development then Some (objects w err) else None),
             body_timestamp = time_now env,
             body_requestId = (case req_headers req ''x-request-id'' of
                                 Some i \<Rightarrow> if i \<noteq> [] then i else ''unknown''
                               | None \<Rightarrow> ''unknown'')\<rparr>;
          statusCode_or_500 = (case statusCode (objects w error) of
                                 Some c \<Rightarrow> if c \<noteq> 0 then c else 500
                               | None \<Rightarrow> 500);
          w1 = logging (logger_debug env ''Error Response Sent:''
                 [(''statusCode'', JNumber statusCode_or_500),
                  (''message'', JString (body_message response)),
                  (''requestId'', JString (body_requestId response))]) w
      in (w1, (statusCode_or_500, response)))"

text \<open>
  The handler. \<open>err\<close> is the address of the error object. The result is the world after
  the call and either the exception that the handler throws or what it sends.
\<close>

definition errorHandler ::
  "environment \<Rightarrow> addr \<Rightarrow> request \<Rightarrow> world \<Rightarrow> world \<times> (js_exception + (int \<times> error_body))" where
  "errorHandler env err req w =
     (let (error, w1) = copy_error err w;
          w2 = log_occurrence env err req w1;
          s3 = duplicate_step env err (cast_step env err (error, w2))
      in case validation_step env err s3 of
           Inl exn \<Rightarrow> (snd s3, Inl exn)
         | Inr s4 \<Rightarrow>
             let s5 = connection_step env err
                        (rate_limit_step env err req (expired_step env err (jwt_step env err s4)));
                 (w6, sent) = respond env err req s5
             in (w6, Inr sent))"

subsection \<open>Two errors that differ in the stack only\<close>

definition with_stack :: "world \<Rightarrow> addr \<Rightarrow> string option \<Rightarrow> world" where
  "with_stack w err trace = w\<lparr>objects := (objects w)(err := (objects w err)\<lparr>stack := trace\<rparr>)\<rparr>"

subsection \<open>Vocabulary of the proofs\<close>

text \<open>
  \<open>kept w0 w\<close>: the world \<open>w\<close> has every object of \<open>w0\<close> unchanged, as many calls of
  \<open>next\<close>, and an error log that extends the one of \<open>w0\<close>. \<open>cur s\<close> is the message and
  the status code of the object bound to \<open>error\<close>. \<open>st2\<close>, \<open>st3\<close> and \<open>st5\<close> name the
  states of one call after line 29, after line 43 and after line 80.
\<close>

definition kept :: "world \<Rightarrow> world \<Rightarrow> bool" where
  "kept w0 w \<longleftrightarrow>
     lim w0 \<le> lim w \<and> (\<forall>b < lim w0. objects w b = objects w0 b) \<and> next_calls w = next_calls w0
     \<and> (\<exists>ys. error_log (logs w) = error_log (logs w0) @ ys)"

definition cur :: "addr \<times> world \<Rightarrow> string option \<times> int option" where
  "cur s = (message (objects (snd s) (fst s)), statusCode (objects (snd s) (fst s)))"

definition st2 :: "environment \<Rightarrow> addr \<Rightarrow> request \<Rightarrow> world \<Rightarrow> addr \<times> world" where
  "st2 env err req w = (fst (copy_error err w), log_occurrence env err req (snd (copy_error err w)))"

definition st3 :: "environment \<Rightarrow> addr \<Rightarrow> request \<Rightarrow> world \<Rightarrow> addr \<times> world" where
  "st3 env err req w = duplicate_step env err (cast_step env err (st2 env err req w))"

definition st5 :: "environment \<Rightarrow> addr \<Rightarrow> request \<Rightarrow> addr \<times> world \<Rightarrow> addr \<times> world" where
  "st5 env err req s4 =
     connection_step env err (rate_limit_step env err req (expired_step env err (jwt_step env err s4)))"

subsection \<open>Example inputs\<close>

definition example_env :: "string option \<Rightarrow> environment" where
  "example_env mode = \<lparr>NODE_ENV = mode, time_now = ''2024-05-01T10:00:00.000Z'', memoryUsage = []\<rparr>"

definition example_request :: request where
  "example_request =
     \<lparr>req_method = ''GET'', req_url = ''/api/posts/1'', req_ip = ''127.0.0.1'',
      req_body = JObject [], req_params = JObject [], req_query = JObject [],
      req_headers = Map.empty\<rparr>"

definition one_error :: "js_error \<Rightarrow> world" where
  "one_error e =
     \<lparr>objects = (\<lambda>a. empty_object)(0 := e), lim = 1,
      logs = \<lparr>combined_log = [], error_log = []\<rparr>, next_calls = 0\<rparr>"


definition two_field_errors :: js_error where
  "two_field_errors =
     empty_object\<lparr>name := Some ''ValidationError'', message := Some ''Validation failed'',
       errors := Some [(''email'', Some ''Email is required''),
                       (''password'', Some ''Password is too short'')],
       own_keys := [''name'', ''message'', ''errors'']\<rparr>"

text \<open>
  \<open>new Error('Boom')\<close> with a stack: no own enumerable property. \<open>status_error\<close> is
  an error that reads \<open>statusCode\<close> 404, as an own enumerable property (\<open>own = True\<close>, as
  after \<open>err.statusCode = 404\<close>) or from its prototype (\<open>own = False\<close>).
\<close>

definition plain_error :: "string \<Rightarrow> js_error" where
  "plain_error trace = empty_object\<lparr>name := Some ''Error'', message := Some ''Boom'', stack := Some trace\<rparr>"


section \<open>The auth gate and registration\<close>

text \<open>
  The credential store: the user records, oldest first. \<open>password\<close> is the salted hash;
  it is \<open>None\<close> in a record that is handed on without it.
\<close>

record account =
  ident :: user_id
  username :: string
  email :: string
  password :: "string option"
  firstName :: string
  lastName :: string
  avatar :: "string option"
  isActive :: bool

type_synonym credentials = "account list"

definition findById :: "credentials \<Rightarrow> user_id \<Rightarrow> account option" where
  "findById users i = List.find (\<lambda>u. ident u = i) users"

text \<open>
  The token service checks the signature and the expiry of a token against the secret
  of the server; it belongs to a library and is a parameter here.
\<close>

datatype token_check = InvalidSignature | Expired | Payload user_id

text \<open>The header value \<open>Bearer <token>\<close>.\<close>

definition bearer_token :: "string \<Rightarrow> string option" where
  "bearer_token h = (if take 7 h = ''Bearer '' then Some (drop 7 h) else None)"

datatype auth_result = Rejected reply | Attached account

text \<open>
  Modelled from the spec: the auth middleware (middleware/auth.js), which is not among
  the sources. Section 4.1 of the specification and the unit test of the middleware
  give its outcomes: header absent, 401 "No token, authorization denied"; header not of
  the form \<open>Bearer <token>\<close>, signature invalid, token expired, or user not found, 401
  "Token is not valid"; otherwise the user record without the password is attached to
  the request and the next handler runs.
\<close>

definition auth :: "(string \<Rightarrow> token_check) \<Rightarrow> credentials \<Rightarrow> string option \<Rightarrow> auth_result" where
  "auth verify users header =
     (case header of
        None \<Rightarrow> Rejected (Reply 401 ''error'' (Some ''No token, authorization denied'') NoData)
      | Some h \<Rightarrow>
          (case bearer_token h of
             None \<Rightarrow> Rejected (Reply 401 ''error'' (Some ''Token is not valid'') NoData)
           | Some t \<Rightarrow>
               (case verify t of
                  InvalidSignature \<Rightarrow> Rejected (Reply 401 ''error'' (Some ''Token is not valid'') NoData)
                | Expired \<Rightarrow> Rejected (Reply 401 ''error'' (Some ''Token is not valid'') NoData)
                | Payload i \<Rightarrow>
                    (case findById users i of
                       None \<Rightarrow> Rejected (Reply 401 ''error'' (Some ''Token is not valid'') NoData)
                     | Some u \<Rightarrow> Attached (u\<lparr>password := None\<rparr>)))))"

text \<open>
  Modelled from the spec: a protected route is the gate followed by the handler of the
  route ("incoming request, Auth Gate, Resource Handler"). The handler gets the attached
  user and the state of the server, and gives the new state and the reply.
\<close>

definition protected_route ::
  "(string \<Rightarrow> token_check) \<Rightarrow> credentials \<Rightarrow> (account \<Rightarrow> 's \<Rightarrow> 's \<times> reply) \<Rightarrow> string option \<Rightarrow> 's
     \<Rightarrow> 's \<times> reply" where
  "protected_route verify users handler header st =
     (case auth verify users header of
        Rejected r \<Rightarrow> (st, r)
      | Attached u \<Rightarrow> handler u st)"

record registration =
  reg_username :: string
  reg_email :: string
  reg_password :: string

datatype register_result = Refused reply | Created (issued_token: string) (created_user: account)

text \<open>
  Modelled from the spec: the registration handler (routes/auth.js), which is not among
  the sources. The specification and the tests of the route say: when a user with the
  email or the username of the request exists, the answer is 400 with the error envelope;
  otherwise the user is stored with a hash of the password and a token is returned. One
  integration suite expects the message "User already exists", another one "User with
  this email or username already exists"; the first is taken here. The hash, the new
  identifier and the token come from libraries and are parameters. The checks of the
  format of the fields are not modelled.
\<close>

definition register ::
  "(string \<Rightarrow> string) \<Rightarrow> (credentials \<Rightarrow> user_id) \<Rightarrow> (user_id \<Rightarrow> string) \<Rightarrow> credentials \<Rightarrow> registration
     \<Rightarrow> credentials \<times> register_result" where
  "register hash new_id sign users r =
     (case List.find (\<lambda>u. email u = reg_email r \<or> username u = reg_username r) users of
        Some existing \<Rightarrow> (users, Refused (Reply 400 ''error'' (Some ''User already exists'') NoData))
      | None \<Rightarrow>
          (let u = \<lparr>ident = new_id users, username = reg_username r, email = reg_email r,
                    password = Some (hash (reg_password r)), firstName = [], lastName = [],
                    avatar = None, isActive = True\<rparr>
           in (users @ [u], Created (sign (ident u)) (u\<lparr>password := None\<rparr>))))"

subsection \<open>Example inputs\<close>

definition alice :: account where
  "alice = \<lparr>ident = ''u1'', username = ''alice'', email = ''alice@example.com'',
            password = Some ''$2a$10$hash'', firstName = ''Alice'', lastName = ''Liddell'',
            avatar = None, isActive = True\<rparr>"

definition example_verify :: "string \<Rightarrow> token_check" where
  "example_verify t =
     (if t = ''good'' then Payload ''u1''
      else if t = ''old'' then Expired
      else if t = ''ghost'' then Payload ''u9''
      else InvalidSignature)"

definition whoami :: "account \<Rightarrow> nat \<Rightarrow> nat \<times> reply" where
  "whoami u hits = (Suc hits, Reply 200 ''success'' (Some (username u)) NoData)"

definition example_hash :: "string \<Rightarrow> string" where
  "example_hash pw = ''$2a$10$'' @ rev pw"

definition example_new_id :: "credentials \<Rightarrow> user_id" where
  "example_new_id users = replicate (Suc (length users)) CHR ''u''"

definition example_sign :: "user_id \<Rightarrow> string" where
  "example_sign i = ''token-for-'' @ i"

section \<open>Properties of the password check\<close>

lemma regex_test_class_iff: "regex_test_class cls s = (\<exists>c \<in> set s. cls c)"
  by (induction s) auto

text \<open>
  Claim C10. For every string, \<open>isStrongPassword\<close> holds exactly when the string has at
  least 8 code units and contains an upper-case letter, a lower-case letter, a digit and
  one of the listed special characters. Every strong password passes the 6-character
  minimum of the user model, and some password passes that minimum without being strong.
\<close>

theorem isStrongPassword_iff_spec:
  "isStrongPassword p = strong_password_spec p
   \<and> (isStrongPassword p \<longrightarrow> user_password_ok p)
   \<and> (\<exists>q. user_password_ok q \<and> \<not> isStrongPassword q)"
proof (intro conjI)
  show eq: "isStrongPassword p = strong_password_spec p"
    by (auto simp: isStrongPassword_def strong_password_spec_def regex_test_class_iff
        class_special_def Let_def)
  show "isStrongPassword p \<longrightarrow> user_password_ok p"
    by (simp add: isStrongPassword_def user_password_ok_def user_password_minlength_def
        split: if_splits)
  have "user_password_ok (js ''secret'') \<and> \<not> isStrongPassword (js ''secret'')"
    by (simp add: user_password_ok_def user_password_minlength_def isStrongPassword_def js_def)
  then show "\<exists>q. user_password_ok q \<and> \<not> isStrongPassword q" by blast
qed

theorem isStrongPassword_iff_spec_witness:
  "isStrongPassword (js ''Passw0rd!'') \<and> strong_password_spec (js ''Passw0rd!'')
   \<and> user_password_ok (js ''Passw0rd!'')"
proof -
  have s: "isStrongPassword (js ''Passw0rd!'')"
    by (simp add: isStrongPassword_def js_def class_upper_def class_lower_def
        class_digit_def class_special_def special_chars_def)
  from isStrongPassword_iff_spec [of "js ''Passw0rd!''"] s show ?thesis by simp
qed

section \<open>Properties of the like toggle\<close>

lemma find_user_None: "List.find (\<lambda>l. user l = uid) ls = None \<longleftrightarrow> uid \<notin> user ` set ls"
  by (auto simp: find_None_iff)

lemma filter_other_users_id: "uid \<notin> user ` set ls \<Longrightarrow> filter (\<lambda>l. user l \<noteq> uid) ls = ls"
  by (induction ls) auto

lemma like_handler_found:
  assumes "db pid = Some p"
  shows "like_handler db pid uid now =
     (if uid \<in> user ` set (likes p)
      then (db(pid \<mapsto> p\<lparr>likes := filter (\<lambda>l. user l \<noteq> uid) (likes p)\<rparr>),
            Reply 200 ''success'' (Some ''Post unliked'')
              (LikeData False (likeCount (p\<lparr>likes := filter (\<lambda>l. user l \<noteq> uid) (likes p)\<rparr>))))
      else (db(pid \<mapsto> p\<lparr>likes := likes p @ [\<lparr>user = uid, createdAt = now\<rparr>]\<rparr>),
            Reply 200 ''success'' (Some ''Post liked'')
              (LikeData True (likeCount (p\<lparr>likes := likes p @ [\<lparr>user = uid, createdAt = now\<rparr>]\<rparr>)))))"
proof (cases "List.find (\<lambda>l. user l = uid) (likes p)")
  case None
  then have "uid \<notin> user ` set (likes p)" by (simp add: find_user_None)
  with None assms show ?thesis
    by (simp add: like_handler_def Let_def)
next
  case (Some l)
  then have "uid \<in> user ` set (likes p)"
    using find_user_None [of uid "likes p"] by simp
  with Some assms show ?thesis
    by (simp add: like_handler_def Let_def)
qed

lemma like_handler_missing:
  "db pid = None \<Longrightarrow> like_handler db pid uid now = (db, Reply 404 ''error'' (Some ''Post not found'') NoData)"
  by (simp add: like_handler_def)

lemma like_twice_store:
  assumes p: "db pid = Some p"
  shows "fst (like_handler (fst (like_handler db pid uid t1)) pid uid t2) pid =
       Some (p\<lparr>likes := (if uid \<in> user ` set (likes p)
                         then filter (\<lambda>l. user l \<noteq> uid) (likes p) @ [\<lparr>user = uid, createdAt = t2\<rparr>]
                         else likes p)\<rparr>)"
proof (cases "uid \<in> user ` set (likes p)")
  case True
  let ?p1 = "p\<lparr>likes := filter (\<lambda>l. user l \<noteq> uid) (likes p)\<rparr>"
  let ?db1 = "db(pid \<mapsto> ?p1)"
  have 1: "fst (like_handler db pid uid t1) = ?db1"
    using p True by (simp add: like_handler_found)
  have n: "uid \<notin> user ` set (likes ?p1)" by auto
  have s: "?db1 pid = Some ?p1" by simp
  have "fst (like_handler ?db1 pid uid t2) pid
      = Some (?p1\<lparr>likes := likes ?p1 @ [\<lparr>user = uid, createdAt = t2\<rparr>]\<rparr>)"
    using n like_handler_found [of ?db1 pid ?p1 uid t2, OF s] by simp
  with 1 True show ?thesis by simp
next
  case False
  let ?p1 = "p\<lparr>likes := likes p @ [\<lparr>user = uid, createdAt = t1\<rparr>]\<rparr>"
  let ?db1 = "db(pid \<mapsto> ?p1)"
  have 1: "fst (like_handler db pid uid t1) = ?db1"
    using p False by (simp add: like_handler_found)
  have n: "uid \<in> user ` set (likes ?p1)" by simp
  have s: "?db1 pid = Some ?p1" by simp
  have "fst (like_handler ?db1 pid uid t2) pid
      = Some (?p1\<lparr>likes := filter (\<lambda>l. user l \<noteq> uid) (likes ?p1)\<rparr>)"
    using n like_handler_found [of ?db1 pid ?p1 uid t2, OF s] by simp
  with 1 False show ?thesis by (simp add: filter_other_users_id)
qed

text \<open>
  Claim C3, as the code has it. The like count of a post is the length of its like list.
  One toggle on an existing post either removes every like of the user (when the user has
  one) or appends one like for the user (when the user has none), and the reply carries
  the like count of the updated post. Two toggles by the same user give back the original
  like list when the user had no like before; when the user had one, the result is the
  original list without the likes of that user, followed by a new like of the user made
  at the time of the second toggle.
\<close>

theorem like_toggle_twice:
  assumes "db pid = Some p"
  shows "likeCount p = length (likes p)
   \<and> like_handler db pid uid t1 =
       (if uid \<in> user ` set (likes p)
        then (db(pid \<mapsto> p\<lparr>likes := filter (\<lambda>l. user l \<noteq> uid) (likes p)\<rparr>),
              Reply 200 ''success'' (Some ''Post unliked'')
                (LikeData False (likeCount (p\<lparr>likes := filter (\<lambda>l. user l \<noteq> uid) (likes p)\<rparr>))))
        else (db(pid \<mapsto> p\<lparr>likes := likes p @ [\<lparr>user = uid, createdAt = t1\<rparr>]\<rparr>),
              Reply 200 ''success'' (Some ''Post liked'')
                (LikeData True (likeCount (p\<lparr>likes := likes p @ [\<lparr>user = uid, createdAt = t1\<rparr>]\<rparr>)))))
   \<and> fst (like_handler (fst (like_handler db pid uid t1)) pid uid t2) pid =
       Some (p\<lparr>likes := (if uid \<in> user ` set (likes p)
                         then filter (\<lambda>l. user l \<noteq> uid) (likes p) @ [\<lparr>user = uid, createdAt = t2\<rparr>]
                         else likes p)\<rparr>)"
  using assms like_handler_found [of db pid p uid t1, OF assms]
    like_twice_store [of db pid p uid t1 t2, OF assms]
  by (simp add: likeCount_def)

text \<open>
  The like list is not restored when the user had a like: the post has the likes of alice
  and bob, alice toggles twice, and the list is then bob's like followed by a new like of
  alice.
\<close>

theorem like_toggle_twice_counterexample:
  "map_option likes
     (fst (like_handler (fst (like_handler [''p1'' \<mapsto> p0] ''p1'' ''alice'' 3)) ''p1'' ''alice'' 4) ''p1'')
   = Some [\<lparr>user = ''bob'', createdAt = 2\<rparr>, \<lparr>user = ''alice'', createdAt = 4\<rparr>]
   \<and> map_option likes
     (fst (like_handler (fst (like_handler [''p1'' \<mapsto> p0] ''p1'' ''alice'' 3)) ''p1'' ''alice'' 4) ''p1'')
   \<noteq> Some (likes p0)"
  by (simp add: like_handler_def p0_def likeCount_def)

theorem like_toggle_twice_witness:
  "fst (like_handler (fst (like_handler [''p1'' \<mapsto> p0] ''p1'' ''dave'' 3)) ''p1'' ''dave'' 4) ''p1''
   = Some p0"
proof -
  have h: "[''p1'' \<mapsto> p0] ''p1'' = Some p0" by simp
  have d: "''dave'' \<notin> user ` set (likes p0)" by (simp add: p0_def)
  have "fst (like_handler (fst (like_handler [''p1'' \<mapsto> p0] ''p1'' ''dave'' 3)) ''p1'' ''dave'' 4) ''p1''
      = Some (p0\<lparr>likes := (if ''dave'' \<in> user ` set (likes p0)
                 then filter (\<lambda>l. user l \<noteq> ''dave'') (likes p0) @ [\<lparr>user = ''dave'', createdAt = 4\<rparr>]
                 else likes p0)\<rparr>)"
    using like_toggle_twice [of "[''p1'' \<mapsto> p0]" "''p1''" p0 "''dave''" 3 4, OF h] by blast
  then show ?thesis using d by simp
qed


lemma like_handler_step_unique:
  assumes "db pid = Some p" and "distinct (map user (likes p))"
  shows "\<exists>p'. fst (like_handler db q uid now) pid = Some p' \<and> distinct (map user (likes p'))"
proof (cases "db q")
  case None
  with assms show ?thesis by (simp add: like_handler_missing)
next
  case (Some r)
  show ?thesis
  proof (cases "q = pid")
    case True
    with Some assms have r: "r = p" by simp
    from assms(2) have "distinct (map user (filter (\<lambda>l. user l \<noteq> uid) (likes p)))"
      by (simp add: distinct_map_filter)
    with assms True show ?thesis
      using like_handler_found [of db pid p uid now] by auto
  next
    case False
    with assms show ?thesis
      using like_handler_found [of db q r uid now, OF Some] by auto
  qed
qed

lemma like_requests_unique:
  assumes "db pid = Some p" and "distinct (map user (likes p))"
  shows "\<exists>p'. like_requests db rs pid = Some p' \<and> distinct (map user (likes p'))"
  using assms
proof (induction rs arbitrary: db p)
  case Nil
  then show ?case by simp
next
  case (Cons r rs)
  obtain q uid now where r: "r = (q, uid, now)" by (cases r) auto
  from like_handler_step_unique [of db pid p q uid now, OF Cons.prems]
  obtain p1 where p1: "fst (like_handler db q uid now) pid = Some p1"
    and d1: "distinct (map user (likes p1))" by blast
  from Cons.IH [of "fst (like_handler db q uid now)" p1, OF p1 d1] show ?case by (simp add: r)
qed

text \<open>
  Claim C4. When the like list of a post has at most one entry per user, it still has at
  most one entry per user after any sequence of like requests, by any users and on any
  posts. One toggle appends an entry only when the user has none, and when the user has
  one the toggle leaves no entry of that user.
\<close>

theorem likes_stay_unique:
  assumes "db pid = Some p" and "distinct (map user (likes p))"
  shows "(\<exists>p'. like_requests db rs pid = Some p' \<and> distinct (map user (likes p')))
   \<and> (\<exists>p1. fst (like_handler db pid uid now) pid = Some p1
         \<and> (if uid \<in> user ` set (likes p)
             then uid \<notin> user ` set (likes p1)
             else likes p1 = likes p @ [\<lparr>user = uid, createdAt = now\<rparr>]))"
proof
  show "\<exists>p'. like_requests db rs pid = Some p' \<and> distinct (map user (likes p'))"
    using assms by (rule like_requests_unique)
  show "\<exists>p1. fst (like_handler db pid uid now) pid = Some p1
         \<and> (if uid \<in> user ` set (likes p)
             then uid \<notin> user ` set (likes p1)
             else likes p1 = likes p @ [\<lparr>user = uid, createdAt = now\<rparr>])"
    using like_handler_found [of db pid p uid now, OF assms(1)] by auto
qed

theorem likes_stay_unique_witness:
  "\<exists>p'. like_requests [''p1'' \<mapsto> p0]
          [(''p1'', ''alice'', 3), (''p1'', ''dave'', 4), (''p2'', ''bob'', 5), (''p1'', ''alice'', 6)] ''p1''
        = Some p' \<and> distinct (map user (likes p'))"
proof -
  have h: "[''p1'' \<mapsto> p0] ''p1'' = Some p0" by simp
  have d: "distinct (map user (likes p0))" by (simp add: p0_def)
  from likes_stay_unique [of "[''p1'' \<mapsto> p0]" "''p1''" p0, OF h d] show ?thesis by blast
qed

section \<open>Properties of update and delete\<close>

lemma put_validation_fails_iff:
  "fst (put_validation body) \<noteq> [] \<longleftrightarrow>
     (\<exists>t. body_title body = Some t \<and> js_trim t = [])
     \<or> (\<exists>c. body_content body = Some c \<and> js_trim c = [])"
  by (auto simp: put_validation_def Let_def)

lemma put_handler_valid:
  assumes "fst (put_validation body) = []"
  shows "put_handler m db pid uid body =
     (if findById_rejects m pid then (db, Reply 500 ''error'' (Some ''Server error'') NoData)
      else
        case db pid of
          None \<Rightarrow> (db, Reply 404 ''error'' (Some ''Post not found'') NoData)
        | Some p \<Rightarrow>
            if author p \<noteq> uid
            then (db, Reply 403 ''error'' (Some ''Not authorized to update this post'') NoData)
            else if findByIdAndUpdate_rejects m pid (make_updateData (snd (put_validation body)))
            then (db, Reply 500 ''error'' (Some ''Server error'') NoData)
            else (db(pid \<mapsto> apply_update (make_updateData (snd (put_validation body))) p),
                  Reply 200 ''success'' (Some ''Post updated successfully'')
                    (PostData (Some (apply_update (make_updateData (snd (put_validation body))) p)))))"
  using assms
  by (cases "put_validation body")
     (simp add: put_handler_def Post_findById_def Post_findByIdAndUpdate_def split: option.splits)

lemma put_handler_invalid:
  assumes "fst (put_validation body) \<noteq> []"
  shows "put_handler m db pid uid body =
     (db, Reply 400 ''error'' (Some ''Validation failed'') (ErrorsData (fst (put_validation body))))"
  using assms by (cases "put_validation body") (simp add: put_handler_def)

lemma put_handler_changes_store:
  assumes "fst (put_handler m db pid uid body) \<noteq> db"
  shows "\<exists>p. db pid = Some p \<and> author p = uid"
proof (cases "fst (put_validation body) = []")
  case True
  from assms show ?thesis
    unfolding put_handler_valid [OF True]
    by (auto split: option.splits if_splits)
next
  case False
  from assms show ?thesis
    unfolding put_handler_invalid [OF False] by simp
qed

lemma delete_handler_cases:
  "delete_handler m db pid uid =
     (if findById_rejects m pid then (db, Reply 500 ''error'' (Some ''Server error'') NoData)
      else
        case db pid of
          None \<Rightarrow> (db, Reply 404 ''error'' (Some ''Post not found'') NoData)
        | Some p \<Rightarrow>
            if author p \<noteq> uid
            then (db, Reply 403 ''error'' (Some ''Not authorized to delete this post'') NoData)
            else if findByIdAndDelete_rejects m pid
            then (db, Reply 500 ''error'' (Some ''Server error'') NoData)
            else (db(pid := None), Reply 200 ''success'' (Some ''Post deleted successfully'') NoData))"
  by (simp add: delete_handler_def Post_findById_def Post_findByIdAndDelete_def split: option.splits)

lemma delete_handler_changes_store:
  assumes "fst (delete_handler m db pid uid) \<noteq> db"
  shows "\<exists>p. db pid = Some p \<and> author p = uid"
  using assms unfolding delete_handler_cases
  by (auto split: option.splits if_splits)

lemma js_trim_blank: "js_trim (js ''   '') = []"
  by (simp add: js_trim_def js_def js_space_def)

lemma js_trim_hi: "js_trim (js '' Hi '') = js ''Hi''"
  by (simp add: js_trim_def js_def js_space_def)

text \<open>
  Claim C5, as the code has it. An update request whose body fails the validation of the
  route (a title or a content that is sent and is empty after trimming) is answered 400
  "Validation failed" before the post is looked up, and the store is unchanged. For an
  update request whose body passes the validation, and for every delete request: when
  the lookup \<open>Post.findById\<close> rejects (as it does for an identifier that cannot be cast)
  the reply is 500 "Server error" and the store is unchanged; when the lookup finds no
  post the reply is 404 "Post not found" and the store is unchanged; when it finds a
  post whose author is not the authenticated user the reply is 403 with "Not authorized
  to update this post" or "Not authorized to delete this post" and the store is
  unchanged; when the author is the authenticated user the post is updated or deleted
  and the reply is 200, unless the update or delete call rejects, which gives 500 and
  an unchanged store. The store changes only when the post exists and the authenticated
  user is its author.
\<close>

theorem owner_check_on_update_and_delete:
  "(fst (put_validation body) \<noteq> [] \<longleftrightarrow>
      (\<exists>t. body_title body = Some t \<and> js_trim t = [])
      \<or> (\<exists>c. body_content body = Some c \<and> js_trim c = []))
   \<and> (fst (put_validation body) \<noteq> [] \<longrightarrow>
        put_handler m db pid uid body =
          (db, Reply 400 ''error'' (Some ''Validation failed'') (ErrorsData (fst (put_validation body)))))
   \<and> (fst (put_validation body) = [] \<longrightarrow>
        (findById_rejects m pid \<longrightarrow>
           put_handler m db pid uid body = (db, Reply 500 ''error'' (Some ''Server error'') NoData))
      \<and> (\<not> findById_rejects m pid \<and> db pid = None \<longrightarrow>
           put_handler m db pid uid body = (db, Reply 404 ''error'' (Some ''Post not found'') NoData))
      \<and> (\<forall>p. \<not> findById_rejects m pid \<and> db pid = Some p \<and> author p \<noteq> uid \<longrightarrow>
           put_handler m db pid uid body =
             (db, Reply 403 ''error'' (Some ''Not authorized to update this post'') NoData))
      \<and> (\<forall>p. \<not> findById_rejects m pid \<and> db pid = Some p \<and> author p = uid
              \<and> findByIdAndUpdate_rejects m pid (make_updateData (snd (put_validation body))) \<longrightarrow>
           put_handler m db pid uid body = (db, Reply 500 ''error'' (Some ''Server error'') NoData))
      \<and> (\<forall>p. \<not> findById_rejects m pid \<and> db pid = Some p \<and> author p = uid
              \<and> \<not> findByIdAndUpdate_rejects m pid (make_updateData (snd (put_validation body))) \<longrightarrow>
           put_handler m db pid uid body =
             (db(pid \<mapsto> apply_update (make_updateData (snd (put_validation body))) p),
              Reply 200 ''success'' (Some ''Post updated successfully'')
                (PostData (Some (apply_update (make_updateData (snd (put_validation body))) p))))))
   \<and> (fst (put_handler m db pid uid body) \<noteq> db \<longrightarrow> (\<exists>p. db pid = Some p \<and> author p = uid))
   \<and> (findById_rejects m pid \<longrightarrow>
         delete_handler m db pid uid = (db, Reply 500 ''error'' (Some ''Server error'') NoData))
   \<and> (\<not> findById_rejects m pid \<and> db pid = None \<longrightarrow>
         delete_handler m db pid uid = (db, Reply 404 ''error'' (Some ''Post not found'') NoData))
   \<and> (\<forall>p. \<not> findById_rejects m pid \<and> db pid = Some p \<and> author p \<noteq> uid \<longrightarrow>
         delete_handler m db pid uid =
           (db, Reply 403 ''error'' (Some ''Not authorized to delete this post'') NoData))
   \<and> (\<forall>p. \<not> findById_rejects m pid \<and> db pid = Some p \<and> author p = uid
           \<and> findByIdAndDelete_rejects m pid \<longrightarrow>
         delete_handler m db pid uid = (db, Reply 500 ''error'' (Some ''Server error'') NoData))
   \<and> (\<forall>p. \<not> findById_rejects m pid \<and> db pid = Some p \<and> author p = uid
           \<and> \<not> findByIdAndDelete_rejects m pid \<longrightarrow>
         delete_handler m db pid uid =
           (db(pid := None), Reply 200 ''success'' (Some ''Post deleted successfully'') NoData))
   \<and> (fst (delete_handler m db pid uid) \<noteq> db \<longrightarrow> (\<exists>p. db pid = Some p \<and> author p = uid))"
proof (intro conjI impI allI)
  show "fst (put_validation body) \<noteq> [] \<longleftrightarrow>
      (\<exists>t. body_title body = Some t \<and> js_trim t = [])
      \<or> (\<exists>c. body_content body = Some c \<and> js_trim c = [])"
    by (rule put_validation_fails_iff)
next
  assume "fst (put_validation body) \<noteq> []"
  then show "put_handler m db pid uid body =
          (db, Reply 400 ''error'' (Some ''Validation failed'') (ErrorsData (fst (put_validation body))))"
    by (rule put_handler_invalid)
next
  assume "fst (delete_handler m db pid uid) \<noteq> db"
  then show "\<exists>p. db pid = Some p \<and> author p = uid"
    by (rule delete_handler_changes_store)
next
  assume "fst (put_handler m db pid uid body) \<noteq> db"
  then show "\<exists>p. db pid = Some p \<and> author p = uid"
    by (rule put_handler_changes_store)
qed (simp_all add: put_handler_valid delete_handler_cases)

text \<open>
  An update whose body fails the validation is answered 400 before the post is looked
  up: here no post has the identifier and the reply is not 404.
\<close>

theorem update_missing_post_counterexample:
  "put_handler never_rejects Map.empty ''p1'' ''alice'' blank_title =
     (Map.empty, Reply 400 ''error'' (Some ''Validation failed'') (ErrorsData [''Title cannot be empty'']))"
  by (simp add: put_handler_def put_validation_def blank_title_def js_trim_blank)

theorem owner_check_on_update_and_delete_witness:
  "put_handler never_rejects [''p1'' \<mapsto> p0] ''p1'' ''alice'' new_title =
     ([''p1'' \<mapsto> p0], Reply 403 ''error'' (Some ''Not authorized to update this post'') NoData)
   \<and> put_handler never_rejects [''p1'' \<mapsto> p0] ''p1'' ''carol'' new_title =
     ([''p1'' \<mapsto> p0\<lparr>title := js ''Hi''\<rparr>],
      Reply 200 ''success'' (Some ''Post updated successfully'') (PostData (Some (p0\<lparr>title := js ''Hi''\<rparr>))))
   \<and> put_handler never_rejects [''p1'' \<mapsto> p0] ''p1'' ''carol'' blank_content =
     ([''p1'' \<mapsto> p0], Reply 400 ''error'' (Some ''Validation failed'')
        (ErrorsData [''Content cannot be empty'']))
   \<and> put_handler never_rejects [''p1'' \<mapsto> p0] ''p2'' ''carol'' new_title =
     ([''p1'' \<mapsto> p0], Reply 404 ''error'' (Some ''Post not found'') NoData)
   \<and> put_handler strict_ids [''p1'' \<mapsto> p0] ''p2'' ''carol'' new_title =
     ([''p1'' \<mapsto> p0], Reply 500 ''error'' (Some ''Server error'') NoData)
   \<and> put_handler strict_ids Map.empty ''507f1f77bcf86cd799439011'' ''carol'' new_title =
     (Map.empty, Reply 404 ''error'' (Some ''Post not found'') NoData)
   \<and> delete_handler never_rejects [''p1'' \<mapsto> p0] ''p1'' ''alice'' =
     ([''p1'' \<mapsto> p0], Reply 403 ''error'' (Some ''Not authorized to delete this post'') NoData)
   \<and> delete_handler never_rejects [''p1'' \<mapsto> p0] ''p1'' ''carol'' =
     (Map.empty, Reply 200 ''success'' (Some ''Post deleted successfully'') NoData)
   \<and> delete_handler strict_ids Map.empty ''not-an-id'' ''carol'' =
     (Map.empty, Reply 500 ''error'' (Some ''Server error'') NoData)
   \<and> put_handler strict_ids [''507f1f77bcf86cd799439011'' \<mapsto> p0] ''507f1f77bcf86cd799439011''
        ''carol'' long_title =
     ([''507f1f77bcf86cd799439011'' \<mapsto> p0], Reply 500 ''error'' (Some ''Server error'') NoData)"
proof -
  have lt: "put_validation long_title = ([], long_title)"
    by (simp add: put_validation_def long_title_def js_trim_def js_space_def)
  have lr: "findByIdAndUpdate_rejects strict_ids ''507f1f77bcf86cd799439011''
              (make_updateData (snd (put_validation long_title)))"
    by (simp add: lt) (simp add: strict_ids_def make_updateData_def long_title_def)
  have v: "put_validation new_title
      = ([], \<lparr>body_title = Some (js ''Hi''), body_content = None, body_tags = None\<rparr>)"
    by (simp add: put_validation_def new_title_def js_trim_hi) (simp add: js_def)
  have w: "fst (put_validation blank_content) = [''Content cannot be empty'']"
    by (simp add: put_validation_def blank_content_def js_trim_blank)
  have u: "apply_update (make_updateData (snd (put_validation new_title))) p0 = p0\<lparr>title := js ''Hi''\<rparr>"
    by (simp add: v make_updateData_def apply_update_def) (simp add: js_def)
  have a: "author p0 = ''carol''" by (simp add: p0_def)
  have f: "fst (put_validation new_title) = []" by (simp add: v)
  have n: "\<not> findById_rejects never_rejects i" "\<not> findByIdAndUpdate_rejects never_rejects i x"
    "\<not> findByIdAndDelete_rejects never_rejects i" for i x
    by (simp_all add: never_rejects_def)
  have s: "findById_rejects strict_ids ''p2''" "findById_rejects strict_ids ''not-an-id''"
    "\<not> findById_rejects strict_ids ''507f1f77bcf86cd799439011''"
    by (simp_all add: strict_ids_def isValidObjectId_def hex_digit_def)
  note t = owner_check_on_update_and_delete
  have 1: "put_handler never_rejects [''p1'' \<mapsto> p0] ''p1'' ''alice'' new_title =
     ([''p1'' \<mapsto> p0], Reply 403 ''error'' (Some ''Not authorized to update this post'') NoData)"
    using t [of new_title never_rejects "[''p1'' \<mapsto> p0]" "''p1''" "''alice''"]
    by (simp add: f a n)
  have 2: "put_handler never_rejects [''p1'' \<mapsto> p0] ''p1'' ''carol'' new_title =
     ([''p1'' \<mapsto> p0\<lparr>title := js ''Hi''\<rparr>],
      Reply 200 ''success'' (Some ''Post updated successfully'') (PostData (Some (p0\<lparr>title := js ''Hi''\<rparr>))))"
    using t [of new_title never_rejects "[''p1'' \<mapsto> p0]" "''p1''" "''carol''"]
    by (simp add: f a n u)
  have 3: "put_handler never_rejects [''p1'' \<mapsto> p0] ''p1'' ''carol'' blank_content =
     ([''p1'' \<mapsto> p0], Reply 400 ''error'' (Some ''Validation failed'')
        (ErrorsData [''Content cannot be empty'']))"
    using t [of blank_content never_rejects "[''p1'' \<mapsto> p0]" "''p1''" "''carol''"]
    by (simp add: w)
  have 4: "put_handler never_rejects [''p1'' \<mapsto> p0] ''p2'' ''carol'' new_title =
     ([''p1'' \<mapsto> p0], Reply 404 ''error'' (Some ''Post not found'') NoData)"
    using t [of new_title never_rejects "[''p1'' \<mapsto> p0]" "''p2''" "''carol''"]
    by (simp add: f n)
  have 5: "put_handler strict_ids [''p1'' \<mapsto> p0] ''p2'' ''carol'' new_title =
     ([''p1'' \<mapsto> p0], Reply 500 ''error'' (Some ''Server error'') NoData)"
    using t [of new_title strict_ids "[''p1'' \<mapsto> p0]" "''p2''" "''carol''"]
    by (simp add: f s)
  have 6: "put_handler strict_ids Map.empty ''507f1f77bcf86cd799439011'' ''carol'' new_title =
     (Map.empty, Reply 404 ''error'' (Some ''Post not found'') NoData)"
    using t [of new_title strict_ids Map.empty "''507f1f77bcf86cd799439011''" "''carol''"]
    by (simp add: f s)
  have 7: "delete_handler never_rejects [''p1'' \<mapsto> p0] ''p1'' ''alice'' =
     ([''p1'' \<mapsto> p0], Reply 403 ''error'' (Some ''Not authorized to delete this post'') NoData)"
    using t [of new_title never_rejects "[''p1'' \<mapsto> p0]" "''p1''" "''alice''"]
    by (simp add: a n)
  have 8: "delete_handler never_rejects [''p1'' \<mapsto> p0] ''p1'' ''carol'' =
     (Map.empty, Reply 200 ''success'' (Some ''Post deleted successfully'') NoData)"
    using t [of new_title never_rejects "[''p1'' \<mapsto> p0]" "''p1''" "''carol''"]
    by (simp add: a n)
  have 9: "delete_handler strict_ids Map.empty ''not-an-id'' ''carol'' =
     (Map.empty, Reply 500 ''error'' (Some ''Server error'') NoData)"
    using t [of new_title strict_ids Map.empty "''not-an-id''" "''carol''"]
    by (simp add: s)
  have 10: "put_handler strict_ids [''507f1f77bcf86cd799439011'' \<mapsto> p0] ''507f1f77bcf86cd799439011''
        ''carol'' long_title =
     ([''507f1f77bcf86cd799439011'' \<mapsto> p0], Reply 500 ''error'' (Some ''Server error'') NoData)"
    using t [of long_title strict_ids "[''507f1f77bcf86cd799439011'' \<mapsto> p0]"
        "''507f1f77bcf86cd799439011''" "''carol''"] lr
    by (simp add: lt a s)
  from 1 2 3 4 5 6 7 8 9 10 show ?thesis by blast
qed

text \<open>
  Claim C7. A successful update (reply 200) changes nothing but the title, the content
  and the tags of the post with the given identifier: the author, the likes, the
  comments and the published flag are those of the post before the update, and every
  other post of the store is unchanged.
\<close>

theorem update_changes_only_title_content_tags:
  assumes "put_handler m db pid uid body = (db', r)" and "http_code r = 200"
  shows "\<exists>p p'. db pid = Some p \<and> db' = db(pid \<mapsto> p')
           \<and> p' = p\<lparr>title := title p', content := content p', tags := tags p'\<rparr>
           \<and> author p' = author p \<and> likes p' = likes p \<and> comments p' = comments p
           \<and> isPublished p' = isPublished p
           \<and> author p = uid"
proof (cases "fst (put_validation body) = []")
  case True
  from assms show ?thesis
    unfolding put_handler_valid [OF True]
    by (auto simp: apply_update_def split: option.splits if_splits)
next
  case False
  from assms show ?thesis
    unfolding put_handler_invalid [OF False] by auto
qed

theorem update_changes_only_title_content_tags_witness:
  "\<exists>p'. [''p1'' \<mapsto> p0\<lparr>title := js ''Hi''\<rparr>] = [''p1'' \<mapsto> p0](''p1'' \<mapsto> p')
         \<and> author p' = author p0 \<and> likes p' = likes p0 \<and> comments p' = comments p0"
proof -
  have v: "put_validation new_title
      = ([], \<lparr>body_title = Some (js ''Hi''), body_content = None, body_tags = None\<rparr>)"
    by (simp add: put_validation_def new_title_def js_trim_hi) (simp add: js_def)
  have run: "put_handler never_rejects [''p1'' \<mapsto> p0] ''p1'' ''carol'' new_title =
     ([''p1'' \<mapsto> p0\<lparr>title := js ''Hi''\<rparr>],
      Reply 200 ''success'' (Some ''Post updated successfully'') (PostData (Some (p0\<lparr>title := js ''Hi''\<rparr>))))"
    by (simp add: put_handler_def v Post_findById_def Post_findByIdAndUpdate_def never_rejects_def
        make_updateData_def apply_update_def p0_def) (simp add: js_def)
  have c: "http_code (Reply 200 ''success'' (Some ''Post updated successfully'')
      (PostData (Some (p0\<lparr>title := js ''Hi''\<rparr>)))) = 200" by simp
  from update_changes_only_title_content_tags [OF run c] show ?thesis by auto
qed

section \<open>Properties of the error handler\<close>

lemma kept_refl: "kept w w"
  by (simp add: kept_def)

lemma kept_trans: "kept w0 w1 \<Longrightarrow> kept w1 w2 \<Longrightarrow> kept w0 w2"
  by (auto simp: kept_def)

lemma error_log_log_at:
  "\<exists>ys. error_log (log_at env l n m meta f) = error_log f @ ys"
  by (simp add: log_at_def writeToFile_def Let_def)

lemma kept_logging_log_at: "kept w (logging (log_at env l n m meta) w)"
  using error_log_log_at [of env l n m meta "logs w"]
  by (simp add: kept_def logging_def)

lemma kept_alloc: "kept w (snd (alloc obj w))"
  by (simp add: kept_def alloc_def)

lemma kept_new_error_log:
  "kept w (logging (log_at env l n m meta) (snd (new_error msg c w)))"
  unfolding new_error_def
  by (rule kept_trans [OF kept_alloc kept_logging_log_at])

lemma cur_new_error_log:
  "cur (fst (new_error msg c w), logging f (snd (new_error msg c w))) = (Some msg, Some c)"
  by (simp add: cur_def new_error_def alloc_def logging_def empty_object_def)

lemma cast_step_kept: "kept (snd s) (snd (cast_step env err s))"
  using kept_new_error_log [of "snd s" env LOG_WARN "''WARN''"]
  by (cases s) (simp add: cast_step_def logger_warn_def split_def Let_def kept_refl)

lemma cast_step_cur:
  "cur (cast_step env err s) =
     (if name (objects (snd s) err) = Some ''CastError'' then (Some ''Resource not found'', Some 404)
      else cur s)"
  by (cases s) (simp add: cast_step_def split_def Let_def cur_new_error_log)

lemma duplicate_step_kept: "kept (snd s) (snd (duplicate_step env err s))"
  using kept_new_error_log [of "snd s" env LOG_WARN "''WARN''"]
  by (cases s) (simp add: duplicate_step_def logger_warn_def split_def Let_def kept_refl)

lemma duplicate_step_cur:
  "cur (duplicate_step env err s) =
     (if code (objects (snd s) err) = Some 11000 then (Some ''Duplicate field value entered'', Some 400)
      else cur s)"
  by (cases s) (simp add: duplicate_step_def split_def Let_def cur_new_error_log)

lemma jwt_step_kept: "kept (snd s) (snd (jwt_step env err s))"
  using kept_new_error_log [of "snd s" env LOG_WARN "''WARN''"]
  by (cases s) (simp add: jwt_step_def logger_warn_def split_def Let_def kept_refl)

lemma jwt_step_cur:
  "cur (jwt_step env err s) =
     (if name (objects (snd s) err) = Some ''JsonWebTokenError'' then (Some ''Invalid token'', Some 401)
      else cur s)"
  by (cases s) (simp add: jwt_step_def split_def Let_def cur_new_error_log)

lemma expired_step_kept: "kept (snd s) (snd (expired_step env err s))"
  using kept_new_error_log [of "snd s" env LOG_WARN "''WARN''"]
  by (cases s) (simp add: expired_step_def logger_warn_def split_def Let_def kept_refl)

lemma expired_step_cur:
  "cur (expired_step env err s) =
     (if name (objects (snd s) err) = Some ''TokenExpiredError'' then (Some ''Token expired'', Some 401)
      else cur s)"
  by (cases s) (simp add: expired_step_def split_def Let_def cur_new_error_log)

lemma rate_limit_step_kept: "kept (snd s) (snd (rate_limit_step env err req s))"
  using kept_new_error_log [of "snd s" env LOG_WARN "''WARN''"]
  by (cases s) (simp add: rate_limit_step_def logger_warn_def split_def Let_def kept_refl)

lemma rate_limit_step_cur:
  "cur (rate_limit_step env err req s) =
     (if status (objects (snd s) err) = Some 429
      then (Some ''Too many requests, please try again later'', Some 429)
      else cur s)"
  by (cases s) (simp add: rate_limit_step_def split_def Let_def cur_new_error_log)

lemma connection_step_kept: "kept (snd s) (snd (connection_step env err s))"
  using kept_new_error_log [of "snd s" env LOG_ERROR "''ERROR''"]
  by (cases s) (simp add: connection_step_def logger_error_def split_def Let_def kept_refl)

lemma connection_step_cur:
  "cur (connection_step env err s) =
     (if name (objects (snd s) err) = Some ''MongoNetworkError''
         \<or> name (objects (snd s) err) = Some ''MongooseServerSelectionError''
      then (Some ''Database connection error'', Some 503)
      else cur s)"
  by (cases s) (simp add: connection_step_def split_def Let_def cur_new_error_log)

lemma validation_step_throws:
  "validation_step env err s = Inl x \<longleftrightarrow>
     name (objects (snd s) err) = Some ''ValidationError'' \<and> errors (objects (snd s) err) = None"
  by (cases s, cases x) (simp add: validation_step_def split_def Let_def split: option.splits)

lemma validation_step_kept:
  "validation_step env err s = Inr s' \<Longrightarrow> kept (snd s) (snd s')"
  using kept_new_error_log [of "snd s" env LOG_WARN "''WARN''"]
  by (cases s)
     (auto simp: validation_step_def logger_warn_def split_def Let_def kept_refl
        split: if_splits option.splits)

lemma validation_step_cur:
  "validation_step env err s = Inr s' \<Longrightarrow>
   cur s' =
     (if name (objects (snd s) err) = Some ''ValidationError''
      then (case errors (objects (snd s) err) of
              Some errs \<Rightarrow> (Some (join '', '' (map snd errs)), Some 400)
            | None \<Rightarrow> cur s)
      else cur s)"
  by (cases s)
     (auto simp: validation_step_def split_def Let_def cur_new_error_log
        split: if_splits option.splits)

lemma copy_error_kept: "kept w (snd (copy_error err w))"
  by (simp add: copy_error_def alloc_def kept_def)

lemma copy_error_cur:
  "err < lim w \<Longrightarrow>
   cur (copy_error err w) = (message (objects w err), statusCode (spread_error (objects w err)))"
  by (simp add: copy_error_def alloc_def cur_def assign_message_def)

lemma copy_error_logs: "logs (snd (copy_error err w)) = logs w"
  by (simp add: copy_error_def alloc_def)

lemma log_occurrence_objects:
  "objects (log_occurrence env err req w) = objects w"
  "lim (log_occurrence env err req w) = lim w"
  "next_calls (log_occurrence env err req w) = next_calls w"
  by (simp_all add: log_occurrence_def logging_def Let_def)

lemma not_error_above_level: "\<not> LOG_ERROR > currentLevel env"
  by (simp add: LOG_ERROR_def)

lemma log_occurrence_error_log:
  "\<exists>entry. error_log (logs (log_occurrence env err req w)) = error_log (logs w) @ [JObject entry]
      \<and> map_of entry ''stack'' = Some (opt_string (stack (objects w err)))"
  by (simp add: log_occurrence_def logging_def Let_def logMemoryUsage_def logger_info_def
      logger_error_def log_at_def writeToFile_def LOG_ERROR_def spread_def)

lemma log_occurrence_kept: "kept w (log_occurrence env err req w)"
  using log_occurrence_error_log [of env err req w]
  by (auto simp: kept_def log_occurrence_objects)

lemma respond_kept: "kept (snd s) (fst (respond env err req s))"
  using kept_logging_log_at [of "snd s" env LOG_DEBUG "''DEBUG''"]
  by (cases s) (simp add: respond_def logger_debug_def split_def Let_def)

lemma respond_result:
  "snd (respond env err req s) =
     ((case snd (cur s) of Some c \<Rightarrow> if c \<noteq> 0 then c else 500 | None \<Rightarrow> 500),
      \<lparr>body_status = ''error'',
       body_message = (case fst (cur s) of
                         Some m \<Rightarrow> if m \<noteq> [] then m else ''Server Error''
                       | None \<Rightarrow> ''Server Error''),
       body_stack = (if NODE_ENV env = Some ''development'' then stack (objects (snd s) err) else None),
       body_originalError = (if NODE_ENV env = Some ''development'' then Some (objects (snd s) err) else None),
       body_timestamp = time_now env,
       body_requestId = (case req_headers req ''x-request-id'' of
                           Some i \<Rightarrow> if i \<noteq> [] then i else ''unknown''
                         | None \<Rightarrow> ''unknown'')\<rparr>)"
  by (cases s) (simp add: respond_def split_def Let_def cur_def)

lemma kept_objects: "kept w0 w \<Longrightarrow> b < lim w0 \<Longrightarrow> objects w b = objects w0 b"
  by (simp add: kept_def)

lemma errorHandler_stages:
  "errorHandler env err req w =
     (case validation_step env err (st3 env err req w) of
        Inl exn \<Rightarrow> (snd (st3 env err req w), Inl exn)
      | Inr s4 \<Rightarrow> (fst (respond env err req (st5 env err req s4)),
                   Inr (snd (respond env err req (st5 env err req s4)))))"
  by (simp add: errorHandler_def st2_def st3_def st5_def split_def Let_def split: sum.splits)

lemma st2_kept: "kept w (snd (st2 env err req w))"
  unfolding st2_def snd_conv
  by (rule kept_trans [OF copy_error_kept log_occurrence_kept])

lemma st2_cur:
  "err < lim w \<Longrightarrow>
   cur (st2 env err req w) = (message (objects w err), statusCode (spread_error (objects w err)))"
  using copy_error_cur [of err w]
  by (simp add: st2_def cur_def log_occurrence_objects)

lemma st3_kept_from_st2: "kept (snd (st2 env err req w)) (snd (st3 env err req w))"
  unfolding st3_def
  by (rule kept_trans [OF cast_step_kept duplicate_step_kept])

lemma st3_kept: "kept w (snd (st3 env err req w))"
  by (rule kept_trans [OF st2_kept st3_kept_from_st2])

lemma st3_cur:
  assumes "err < lim w"
  shows "cur (st3 env err req w) =
     (if code (objects w err) = Some 11000 then (Some ''Duplicate field value entered'', Some 400)
      else if name (objects w err) = Some ''CastError'' then (Some ''Resource not found'', Some 404)
      else (message (objects w err), statusCode (spread_error (objects w err))))"
proof -
  have a: "objects (snd (st2 env err req w)) err = objects w err"
    using kept_objects [OF st2_kept assms] .
  have "kept w (snd (cast_step env err (st2 env err req w)))"
    by (rule kept_trans [OF st2_kept cast_step_kept])
  then have b: "objects (snd (cast_step env err (st2 env err req w))) err = objects w err"
    using assms by (rule kept_objects)
  show ?thesis
    by (simp add: st3_def duplicate_step_cur cast_step_cur a b st2_cur [OF assms])
qed

lemma st5_kept: "kept (snd s4) (snd (st5 env err req s4))"
  unfolding st5_def
  by (rule kept_trans [OF jwt_step_kept
        kept_trans [OF expired_step_kept kept_trans [OF rate_limit_step_kept connection_step_kept]]])

lemma st5_cur:
  assumes k: "kept w (snd s4)" and l: "err < lim w"
  shows "cur (st5 env err req s4) =
     (if name (objects w err) = Some ''MongoNetworkError''
         \<or> name (objects w err) = Some ''MongooseServerSelectionError''
      then (Some ''Database connection error'', Some 503)
      else if status (objects w err) = Some 429
      then (Some ''Too many requests, please try again later'', Some 429)
      else if name (objects w err) = Some ''TokenExpiredError'' then (Some ''Token expired'', Some 401)
      else if name (objects w err) = Some ''JsonWebTokenError'' then (Some ''Invalid token'', Some 401)
      else cur s4)"
proof -
  let ?a = "jwt_step env err s4"
  let ?b = "expired_step env err ?a"
  let ?c = "rate_limit_step env err req ?b"
  have ka: "kept w (snd ?a)" by (rule kept_trans [OF k jwt_step_kept])
  have kb: "kept w (snd ?b)" by (rule kept_trans [OF ka expired_step_kept])
  have kc: "kept w (snd ?c)" by (rule kept_trans [OF kb rate_limit_step_kept])
  note o = kept_objects [OF k l] kept_objects [OF ka l] kept_objects [OF kb l] kept_objects [OF kc l]
  show ?thesis
    by (simp add: st5_def connection_step_cur rate_limit_step_cur expired_step_cur jwt_step_cur o)
qed

lemma errorHandler_kept_from_st2:
  "kept (snd (st2 env err req w)) (fst (errorHandler env err req w))"
proof (cases "validation_step env err (st3 env err req w)")
  case (Inl exn)
  then show ?thesis by (simp add: errorHandler_stages st3_kept_from_st2)
next
  case (Inr s4)
  have "kept (snd (st2 env err req w)) (snd s4)"
    by (rule kept_trans [OF st3_kept_from_st2 validation_step_kept [OF Inr]])
  then have "kept (snd (st2 env err req w)) (fst (respond env err req (st5 env err req s4)))"
    by (rule kept_trans [OF _ kept_trans [OF st5_kept respond_kept]])
  with Inr show ?thesis by (simp add: errorHandler_stages)
qed

lemma errorHandler_kept: "kept w (fst (errorHandler env err req w))"
  by (rule kept_trans [OF st2_kept errorHandler_kept_from_st2])

lemma errorHandler_error_log:
  assumes "err < lim w"
  shows "\<exists>entry rest.
           error_log (logs (fst (errorHandler env err req w))) = error_log (logs w) @ JObject entry # rest
           \<and> map_of entry ''stack'' = Some (opt_string (stack (objects w err)))"
proof -
  let ?w1 = "snd (copy_error err w)"
  have o: "objects ?w1 err = objects w err"
    using kept_objects [OF copy_error_kept assms] .
  from log_occurrence_error_log [of env err req ?w1]
  obtain entry where e: "error_log (logs (snd (st2 env err req w))) = error_log (logs w) @ [JObject entry]"
    and m: "map_of entry ''stack'' = Some (opt_string (stack (objects w err)))"
    by (auto simp: st2_def copy_error_logs o)
  from errorHandler_kept_from_st2 [of env err req w]
  obtain ys where "error_log (logs (fst (errorHandler env err req w)))
      = error_log (logs (snd (st2 env err req w))) @ ys"
    by (auto simp: kept_def)
  with e m show ?thesis by simp
qed

lemma errorHandler_throws:
  assumes "err < lim w"
    and "name (objects w err) = Some ''ValidationError''" and "errors (objects w err) = None"
  shows "snd (errorHandler env err req w) = Inl TypeError"
proof -
  have o: "objects (snd (st3 env err req w)) err = objects w err"
    using kept_objects [OF st3_kept assms(1)] .
  have "validation_step env err (st3 env err req w) = Inl TypeError"
    by (simp add: validation_step_throws o assms)
  then show ?thesis by (simp add: errorHandler_stages)
qed

lemma errorHandler_sends:
  assumes l: "err < lim w"
    and v: "\<not> (name (objects w err) = Some ''ValidationError'' \<and> errors (objects w err) = None)"
  shows "snd (errorHandler env err req w) =
     Inr
      ((if name (objects w err) = Some ''MongoNetworkError''
           \<or> name (objects w err) = Some ''MongooseServerSelectionError'' then 503
        else if status (objects w err) = Some 429 then 429
        else if name (objects w err) = Some ''TokenExpiredError'' then 401
        else if name (objects w err) = Some ''JsonWebTokenError'' then 401
        else if name (objects w err) = Some ''ValidationError'' then 400
        else if code (objects w err) = Some 11000 then 400
        else if name (objects w err) = Some ''CastError'' then 404
        else (case statusCode (spread_error (objects w err)) of
                Some c \<Rightarrow> if c \<noteq> 0 then c else 500
              | None \<Rightarrow> 500)),
       \<lparr>body_status = ''error'',
        body_message =
          (if name (objects w err) = Some ''MongoNetworkError''
              \<or> name (objects w err) = Some ''MongooseServerSelectionError''
           then ''Database connection error''
           else if status (objects w err) = Some 429 then ''Too many requests, please try again later''
           else if name (objects w err) = Some ''TokenExpiredError'' then ''Token expired''
           else if name (objects w err) = Some ''JsonWebTokenError'' then ''Invalid token''
           else if name (objects w err) = Some ''ValidationError''
           then (case errors (objects w err) of
                   Some errs \<Rightarrow> if join '', '' (map snd errs) \<noteq> [] then join '', '' (map snd errs)
                                else ''Server Error''
                 | None \<Rightarrow> ''Server Error'')
           else if code (objects w err) = Some 11000 then ''Duplicate field value entered''
           else if name (objects w err) = Some ''CastError'' then ''Resource not found''
           else (case message (objects w err) of
                   Some m \<Rightarrow> if m \<noteq> [] then m else ''Server Error''
                 | None \<Rightarrow> ''Server Error'')),
        body_stack = (if NODE_ENV env = Some ''development'' then stack (objects w err) else None),
        body_originalError = (if NODE_ENV env = Some ''development'' then Some (objects w err) else None),
        body_timestamp = time_now env,
        body_requestId = (case req_headers req ''x-request-id'' of
                            Some i \<Rightarrow> if i \<noteq> [] then i else ''unknown''
                          | None \<Rightarrow> ''unknown'')\<rparr>)"
proof -
  have o3: "objects (snd (st3 env err req w)) err = objects w err"
    using kept_objects [OF st3_kept l] .
  from v obtain s4 where s4: "validation_step env err (st3 env err req w) = Inr s4"
    by (cases "validation_step env err (st3 env err req w)")
       (auto simp: validation_step_throws o3)
  have k4: "kept w (snd s4)"
    by (rule kept_trans [OF st3_kept validation_step_kept [OF s4]])
  have k5: "kept w (snd (st5 env err req s4))"
    by (rule kept_trans [OF k4 st5_kept])
  have o5: "objects (snd (st5 env err req s4)) err = objects w err"
    using kept_objects [OF k5 l] .
  have c4: "cur s4 =
     (if name (objects w err) = Some ''ValidationError''
      then (case errors (objects w err) of
              Some errs \<Rightarrow> (Some (join '', '' (map snd errs)), Some 400)
            | None \<Rightarrow> cur (st3 env err req w))
      else cur (st3 env err req w))"
    using validation_step_cur [OF s4] by (simp add: o3)
  show ?thesis
  proof (cases "name (objects w err) = Some ''ValidationError''")
    case True
    with v obtain errs where "errors (objects w err) = Some errs" by auto
    with True show ?thesis
      by (simp add: errorHandler_stages s4 respond_result o5 st5_cur [OF k4 l] c4)
  next
    case False
    then show ?thesis
      by (simp add: errorHandler_stages s4 respond_result o5 st5_cur [OF k4 l] c4 st3_cur [OF l])
  qed
qed




lemma with_stack_simps:
  "lim (with_stack w err t) = lim w"
  "name (objects (with_stack w err t) err) = name (objects w err)"
  "message (objects (with_stack w err t) err) = message (objects w err)"
  "code (objects (with_stack w err t) err) = code (objects w err)"
  "status (objects (with_stack w err t) err) = status (objects w err)"
  "statusCode (objects (with_stack w err t) err) = statusCode (objects w err)"
  "errors (objects (with_stack w err t) err) = errors (objects w err)"
  "stack (objects (with_stack w err t) err) = t"
  "statusCode (spread_error (objects (with_stack w err t) err)) = statusCode (spread_error (objects w err))"
  by (simp_all add: with_stack_def spread_error_def)

text \<open>
  Claim C6, as the code has it. The body carries the stack of the error (and the error
  itself) exactly when \<open>NODE_ENV\<close> is "development", and in no other environment. In
  development two errors that differ in the stack only get bodies with different stacks;
  in every other environment they get the same answer. In every environment the call
  appends to the error log an entry whose \<open>stack\<close> is the stack of the error.
\<close>

theorem stack_sent_only_in_development:
  assumes "err < lim w"
  shows "(\<forall>c body. snd (errorHandler env err req w) = Inr (c, body) \<longrightarrow>
            body_stack body = (if NODE_ENV env = Some ''development'' then stack (objects w err) else None)
            \<and> (NODE_ENV env \<noteq> Some ''development'' \<longrightarrow> body_originalError body = None))
     \<and> (\<forall>c1 body1 c2 body2.
            NODE_ENV env = Some ''development'' \<and> stack (objects w err) \<noteq> trace
            \<and> snd (errorHandler env err req w) = Inr (c1, body1)
            \<and> snd (errorHandler env err req (with_stack w err trace)) = Inr (c2, body2)
            \<longrightarrow> body_stack body1 \<noteq> body_stack body2)
     \<and> (NODE_ENV env \<noteq> Some ''development'' \<longrightarrow>
            snd (errorHandler env err req (with_stack w err trace)) = snd (errorHandler env err req w))
     \<and> (\<exists>entry rest.
            error_log (logs (fst (errorHandler env err req w))) = error_log (logs w) @ JObject entry # rest
            \<and> map_of entry ''stack'' = Some (opt_string (stack (objects w err))))"
proof (intro conjI)
  have l2: "err < lim (with_stack w err trace)" using assms by (simp add: with_stack_simps)
  show "\<exists>entry rest.
            error_log (logs (fst (errorHandler env err req w))) = error_log (logs w) @ JObject entry # rest
            \<and> map_of entry ''stack'' = Some (opt_string (stack (objects w err)))"
    using assms by (rule errorHandler_error_log)
  show "NODE_ENV env \<noteq> Some ''development'' \<longrightarrow>
            snd (errorHandler env err req (with_stack w err trace)) = snd (errorHandler env err req w)"
  proof (cases "name (objects w err) = Some ''ValidationError'' \<and> errors (objects w err) = None")
    case True
    then show ?thesis
      using errorHandler_throws [OF assms, of env req] errorHandler_throws [OF l2, of env req]
      by (simp add: with_stack_simps)
  next
    case False
    then have f2: "\<not> (name (objects (with_stack w err trace) err) = Some ''ValidationError''
        \<and> errors (objects (with_stack w err trace) err) = None)"
      by (simp add: with_stack_simps)
    show ?thesis
      unfolding errorHandler_sends [OF assms False] errorHandler_sends [OF l2 f2]
      by (simp add: with_stack_simps)
  qed
  show "\<forall>c body. snd (errorHandler env err req w) = Inr (c, body) \<longrightarrow>
            body_stack body = (if NODE_ENV env = Some ''development'' then stack (objects w err) else None)
            \<and> (NODE_ENV env \<noteq> Some ''development'' \<longrightarrow> body_originalError body = None)"
  proof (cases "name (objects w err) = Some ''ValidationError'' \<and> errors (objects w err) = None")
    case True
    then show ?thesis using errorHandler_throws [OF assms, of env req] by simp
  next
    case False
    show ?thesis unfolding errorHandler_sends [OF assms False] by auto
  qed
  show "\<forall>c1 body1 c2 body2.
            NODE_ENV env = Some ''development'' \<and> stack (objects w err) \<noteq> trace
            \<and> snd (errorHandler env err req w) = Inr (c1, body1)
            \<and> snd (errorHandler env err req (with_stack w err trace)) = Inr (c2, body2)
            \<longrightarrow> body_stack body1 \<noteq> body_stack body2"
  proof (cases "name (objects w err) = Some ''ValidationError'' \<and> errors (objects w err) = None")
    case True
    then show ?thesis using errorHandler_throws [OF assms, of env req] by simp
  next
    case False
    then have f2: "\<not> (name (objects (with_stack w err trace) err) = Some ''ValidationError''
        \<and> errors (objects (with_stack w err trace) err) = None)"
      by (simp add: with_stack_simps)
    show ?thesis
      unfolding errorHandler_sends [OF assms False] errorHandler_sends [OF l2 f2]
      by (auto simp: with_stack_simps)
  qed
qed

text \<open>
  With \<open>NODE_ENV\<close> "test", which is not production, two errors that differ in the stack
  only get the same body, without a stack.
\<close>

theorem stack_sent_only_in_development_counterexample:
  "snd (errorHandler (example_env (Some ''test'')) 0 example_request (one_error (plain_error ''at a.js:1''))) =
     Inr (500,
          \<lparr>body_status = ''error'', body_message = ''Boom'', body_stack = None,
           body_originalError = None, body_timestamp = ''2024-05-01T10:00:00.000Z'',
           body_requestId = ''unknown''\<rparr>)
   \<and> snd (errorHandler (example_env (Some ''test'')) 0 example_request (one_error (plain_error ''at b.js:2''))) =
     Inr (500,
          \<lparr>body_status = ''error'', body_message = ''Boom'', body_stack = None,
           body_originalError = None, body_timestamp = ''2024-05-01T10:00:00.000Z'',
           body_requestId = ''unknown''\<rparr>)"
proof -
  have l: "0 < lim (one_error (plain_error t))" for t by (simp add: one_error_def)
  have v: "\<not> (name (objects (one_error (plain_error t)) 0) = Some ''ValidationError''
             \<and> errors (objects (one_error (plain_error t)) 0) = None)" for t
    by (simp add: one_error_def plain_error_def empty_object_def)
  show ?thesis
    unfolding errorHandler_sends [OF l v]
    by (simp add: one_error_def plain_error_def empty_object_def example_env_def example_request_def
        spread_error_def)
qed

theorem stack_sent_only_in_development_witness:
  "\<exists>c body. snd (errorHandler (example_env (Some ''development'')) 0 example_request
                 (one_error (plain_error ''at a.js:1''))) = Inr (c, body)
      \<and> body_stack body = Some ''at a.js:1''"
proof -
  have l: "0 < lim (one_error (plain_error ''at a.js:1''))" by (simp add: one_error_def)
  have v: "\<not> (name (objects (one_error (plain_error ''at a.js:1'')) 0) = Some ''ValidationError''
             \<and> errors (objects (one_error (plain_error ''at a.js:1'')) 0) = None)"
    by (simp add: one_error_def plain_error_def empty_object_def)
  obtain c body where r: "snd (errorHandler (example_env (Some ''development'')) 0 example_request
                 (one_error (plain_error ''at a.js:1''))) = Inr (c, body)"
    unfolding errorHandler_sends [OF l v] by blast
  from stack_sent_only_in_development [OF l, of "example_env (Some ''development'')" example_request]
    r have "body_stack body = Some ''at a.js:1''"
    by (simp add: example_env_def one_error_def plain_error_def)
  with r show ?thesis by blast
qed

text \<open>
  Claim C8. A call of the handler leaves every object that existed before the call as it
  was, the error object among them: what it writes, it writes to objects that it has
  allocated itself. It never calls \<open>next\<close>. Apart from new objects, the world after the
  call differs from the world before in the log files only.
\<close>

theorem errorHandler_changes_no_object:
  "(\<forall>b < lim w. objects (fst (errorHandler env err req w)) b = objects w b)
   \<and> next_calls (fst (errorHandler env err req w)) = next_calls w
   \<and> lim w \<le> lim (fst (errorHandler env err req w))"
  using errorHandler_kept [of w env err req] by (simp add: kept_def)

theorem errorHandler_changes_no_object_witness:
  "objects (fst (errorHandler (example_env (Some ''development'')) 0 example_request
      (one_error two_field_errors))) 0 = two_field_errors"
  using errorHandler_changes_no_object [of "one_error two_field_errors"
      "example_env (Some ''development'')" 0 example_request]
  by (simp add: one_error_def)

section \<open>Properties of the auth gate and of registration\<close>

text \<open>
  Claim C2. A request to a protected route has one of three outcomes. Without an
  Authorization header the reply is 401 "No token, authorization denied" and the handler
  does not run. With a header that is not of the form \<open>Bearer <token>\<close>, or whose token
  has an invalid signature, or is expired, or names a user that does not exist, the reply
  is 401 "Token is not valid", the same in each of these cases, and the handler does not
  run. With a token that verifies and names an existing user, the user record without
  the password is attached and the handler runs with it.
\<close>

theorem auth_gate_outcomes:
  "(header = None \<longrightarrow>
      protected_route verify users handler header st =
        (st, Reply 401 ''error'' (Some ''No token, authorization denied'') NoData))
   \<and> (\<forall>h. header = Some h
          \<and> (bearer_token h = None
             \<or> (\<exists>t. bearer_token h = Some t
                   \<and> (verify t = InvalidSignature \<or> verify t = Expired
                      \<or> (\<exists>i. verify t = Payload i \<and> findById users i = None))))
        \<longrightarrow> protected_route verify users handler header st =
              (st, Reply 401 ''error'' (Some ''Token is not valid'') NoData))
   \<and> (\<forall>h t i u. header = Some h \<and> bearer_token h = Some t \<and> verify t = Payload i
          \<and> findById users i = Some u
        \<longrightarrow> auth verify users header = Attached (u\<lparr>password := None\<rparr>)
            \<and> password (u\<lparr>password := None\<rparr>) = None
            \<and> protected_route verify users handler header st = handler (u\<lparr>password := None\<rparr>) st)"
  by (auto simp: protected_route_def auth_def split: option.splits token_check.splits)

theorem auth_gate_outcomes_witness:
  "protected_route example_verify [alice] whoami None 0 =
     (0, Reply 401 ''error'' (Some ''No token, authorization denied'') NoData)
   \<and> protected_route example_verify [alice] whoami (Some ''good'') 0 =
     (0, Reply 401 ''error'' (Some ''Token is not valid'') NoData)
   \<and> protected_route example_verify [alice] whoami (Some ''Bearer bad'') 0 =
     (0, Reply 401 ''error'' (Some ''Token is not valid'') NoData)
   \<and> protected_route example_verify [alice] whoami (Some ''Bearer old'') 0 =
     (0, Reply 401 ''error'' (Some ''Token is not valid'') NoData)
   \<and> protected_route example_verify [alice] whoami (Some ''Bearer ghost'') 0 =
     (0, Reply 401 ''error'' (Some ''Token is not valid'') NoData)
   \<and> protected_route example_verify [alice] whoami (Some ''Bearer good'') 0 =
     (1, Reply 200 ''success'' (Some ''alice'') NoData)"
proof -
  have b: "bearer_token ''good'' = None" "bearer_token ''Bearer bad'' = Some ''bad''"
    "bearer_token ''Bearer old'' = Some ''old''" "bearer_token ''Bearer ghost'' = Some ''ghost''"
    "bearer_token ''Bearer good'' = Some ''good''"
    by (simp_all add: bearer_token_def)
  have v: "example_verify ''bad'' = InvalidSignature" "example_verify ''old'' = Expired"
    "example_verify ''ghost'' = Payload ''u9''" "example_verify ''good'' = Payload ''u1''"
    by (simp_all add: example_verify_def)
  have f: "findById [alice] ''u9'' = None" "findById [alice] ''u1'' = Some alice"
    by (simp_all add: findById_def alice_def)
  note g = auth_gate_outcomes [of _ example_verify "[alice]" whoami "0::nat"]
  have 1: "protected_route example_verify [alice] whoami None 0 =
     (0, Reply 401 ''error'' (Some ''No token, authorization denied'') NoData)"
    using g [of None] by simp
  have 2: "protected_route example_verify [alice] whoami (Some ''good'') 0 =
     (0, Reply 401 ''error'' (Some ''Token is not valid'') NoData)"
    using g [of "Some ''good''"] b by simp
  have 3: "protected_route example_verify [alice] whoami (Some ''Bearer bad'') 0 =
     (0, Reply 401 ''error'' (Some ''Token is not valid'') NoData)"
    using g [of "Some ''Bearer bad''"] b v by simp
  have 4: "protected_route example_verify [alice] whoami (Some ''Bearer old'') 0 =
     (0, Reply 401 ''error'' (Some ''Token is not valid'') NoData)"
    using g [of "Some ''Bearer old''"] b v by simp
  have 5: "protected_route example_verify [alice] whoami (Some ''Bearer ghost'') 0 =
     (0, Reply 401 ''error'' (Some ''Token is not valid'') NoData)"
    using g [of "Some ''Bearer ghost''"] b v f by simp
  have 6: "protected_route example_verify [alice] whoami (Some ''Bearer good'') 0 =
     (1, Reply 200 ''success'' (Some ''alice'') NoData)"
    using g [of "Some ''Bearer good''"] b v f by (simp add: whoami_def alice_def)
  from 1 2 3 4 5 6 show ?thesis by blast
qed

lemma find_Some_if_member: "x \<in> set xs \<Longrightarrow> P x \<Longrightarrow> \<exists>y. List.find P xs = Some y"
  by (cases "List.find P xs") (auto simp: find_None_iff)

text \<open>
  Claim C9. When a user with the email or the username of a registration request is in
  the credential store, the answer is 400 with the error envelope and the message "User
  already exists" or "User with this email or username already exists", and the store
  is as before.
\<close>

theorem register_existing_user:
  assumes "u \<in> set users" and "reg_email r = email u \<or> reg_username r = username u"
  shows "\<exists>m. register hash new_id sign users r = (users, Refused (Reply 400 ''error'' (Some m) NoData))
           \<and> (m = ''User already exists'' \<or> m = ''User with this email or username already exists'')"
proof -
  from assms have "\<exists>y. List.find (\<lambda>u. email u = reg_email r \<or> username u = reg_username r) users = Some y"
    by (intro find_Some_if_member [of u]) auto
  then show ?thesis by (auto simp: register_def)
qed

theorem register_existing_user_witness:
  "register example_hash example_new_id example_sign [alice]
     \<lparr>reg_username = ''alice2'', reg_email = ''alice@example.com'', reg_password = ''password123''\<rparr>
   = ([alice], Refused (Reply 400 ''error'' (Some ''User already exists'') NoData))"
proof -
  have m: "alice \<in> set [alice]" by simp
  have e: "reg_email \<lparr>reg_username = ''alice2'', reg_email = ''alice@example.com'',
             reg_password = ''password123''\<rparr> = email alice
       \<or> reg_username \<lparr>reg_username = ''alice2'', reg_email = ''alice@example.com'',
             reg_password = ''password123''\<rparr> = username alice"
    by (simp add: alice_def)
  from register_existing_user [OF m e, of example_hash example_new_id example_sign] show ?thesis
    by (auto simp: register_def alice_def)
qed

end
